theory Spec2Isabelle
  imports Complex_Main "HOL-Library.Word" "HOL-Library.Signed_Division"
begin

section \<open>Screen-space contact shadows: the compute shader \<open>Main_CS\<close> and its dispatch\<close>

text \<open>
  The shader computes on 32-bit floats. They are modelled as real numbers: the model is
  exact where the hardware rounds, and it has no NaN or infinity (a division by zero is 0
  here). Every concrete input used below is chosen so that the comparisons that decide the
  control flow are far from any rounding boundary.
\<close>

type_synonym float = real
type_synonym float2 = "float \<times> float"
type_synonym float3 = "float \<times> float \<times> float"
type_synonym float4 = "float \<times> float \<times> float \<times> float"
type_synonym float4x4 = "float4 \<times> float4 \<times> float4 \<times> float4"
type_synonym uint = "32 word"
type_synonym int32 = "32 word"
type_synonym uint2 = "uint \<times> uint"
type_synonym uint3 = "uint \<times> uint \<times> uint"

subsection \<open>Swizzles and intrinsics\<close>

abbreviation x3 :: "'a \<times> 'a \<times> 'a \<Rightarrow> 'a" where "x3 v \<equiv> fst v"
abbreviation y3 :: "'a \<times> 'a \<times> 'a \<Rightarrow> 'a" where "y3 v \<equiv> fst (snd v)"
abbreviation z3 :: "'a \<times> 'a \<times> 'a \<Rightarrow> 'a" where "z3 v \<equiv> snd (snd v)"
abbreviation xy3 :: "'a \<times> 'a \<times> 'a \<Rightarrow> 'a \<times> 'a" where "xy3 v \<equiv> (fst v, fst (snd v))"

abbreviation x4 :: "float4 \<Rightarrow> float" where "x4 v \<equiv> fst v"
abbreviation y4 :: "float4 \<Rightarrow> float" where "y4 v \<equiv> fst (snd v)"
abbreviation z4 :: "float4 \<Rightarrow> float" where "z4 v \<equiv> fst (snd (snd v))"
abbreviation w4 :: "float4 \<Rightarrow> float" where "w4 v \<equiv> snd (snd (snd v))"

text \<open>\<open>mul(v, M)\<close> of HLSL: the row vector \<open>v\<close> times the matrix \<open>M\<close>, given by its rows.\<close>

fun mul :: "float4 \<Rightarrow> float4x4 \<Rightarrow> float4" where
  "mul (x, y, z, w) ((a0, a1, a2, a3), (b0, b1, b2, b3), (c0, c1, c2, c3), (d0, d1, d2, d3)) =
     (x * a0 + y * b0 + z * c0 + w * d0,
      x * a1 + y * b1 + z * c1 + w * d1,
      x * a2 + y * b2 + z * c2 + w * d2,
      x * a3 + y * b3 + z * c3 + w * d3)"

fun dot :: "float3 \<Rightarrow> float3 \<Rightarrow> float" where
  "dot (a, b, c) (x, y, z) = a * x + b * y + c * z"

fun add4 :: "float4 \<Rightarrow> float4 \<Rightarrow> float4" where
  "add4 (a, b, c, d) (x, y, z, w) = (a + x, b + y, c + z, d + w)"

text \<open>\<open>v.xyz / v.w\<close>.\<close>

fun xyz_over_w :: "float4 \<Rightarrow> float3" where
  "xyz_over_w (x, y, z, w) = (x / w, y / w, z / w)"

text \<open>\<open>all(0.0 < uv && uv < 1.0)\<close>: strictly inside the screen rectangle on both axes.\<close>

definition all_inside :: "float2 \<Rightarrow> bool" where
  "all_inside uv = ((0 < fst uv \<and> fst uv < 1) \<and> (0 < snd uv \<and> snd uv < 1))"

text \<open>
  The conversion \<open>uint(f)\<close> truncates towards zero. A negative or too large operand is
  outside what HLSL defines; the model takes the result of the hardware instruction, which
  clamps to the range of \<open>uint\<close>.
\<close>

definition float_to_uint :: "float \<Rightarrow> uint" where
  "float_to_uint f =
     (if f \<le> 0 then 0 else if 4294967295 \<le> f then 4294967295 else word_of_int \<lfloor>f\<rfloor>)"

subsection \<open>Inputs of the shader\<close>

record FGBufferData =
  WorldNormal :: float3
  Depth :: float

record ViewUniforms =
  ViewRectMin :: float4
  BufferSizeAndInvSize :: float4
  ScreenPositionScaleBias :: float4
  ScreenToTranslatedWorld :: float4x4
  TranslatedWorldToClip :: float4x4
  ViewToClip :: float4x4
  StateFrameIndexMod8 :: uint

text \<open>
  The uniform block, the light parameter, and the engine functions the shader calls
  (\<open>SceneTextureParameters.ush\<close> and the engine's common shader code are not part of the
  sources): they are parameters of the model. \<open>GetGBufferDataFromSceneTextures\<close> is the
  read access to the depth/normal buffer.
\<close>

record shader_env =
  View :: ViewUniforms
  LightPositionOrDirection :: float4
  GetGBufferDataFromSceneTextures :: "float2 \<Rightarrow> FGBufferData"
  ConvertToDeviceZ :: "float \<Rightarrow> float"
  InterleavedGradientNoise :: "float2 \<Rightarrow> float \<Rightarrow> float"
  GetTanHalfFieldOfView :: float2

text \<open>The two writable textures bound to the pass, as stores addressed by pixel.\<close>

record surfaces =
  RWShadowFactors :: "uint2 \<Rightarrow> float2"
  testFactors :: "uint2 \<Rightarrow> float2"

subsection \<open>\<open>Main_CS\<close>: the locals computed before the loop\<close>

text \<open>
  Each local of \<open>Main_CS\<close> is a definition of the same name, a function of the inputs
  and of \<open>DispatchThreadId\<close>. \<open>ThreadIndex\<close>, \<open>V\<close>, \<open>Thickness\<close> and
  \<open>ShadowIntensity\<close> are computed and never used; they are left out.
\<close>

definition NumSteps :: nat where
  "NumSteps = 64"

definition CompareTorelanceScale :: float where
  "CompareTorelanceScale = 2"

definition ScreenUV :: "shader_env \<Rightarrow> uint3 \<Rightarrow> float2" where
  "ScreenUV E DispatchThreadId =
     ((real (unat (x3 DispatchThreadId)) + x4 (ViewRectMin (View E)) + 1 / 2)
        * z4 (BufferSizeAndInvSize (View E)),
      (real (unat (y3 DispatchThreadId)) + y4 (ViewRectMin (View E)) + 1 / 2)
        * w4 (BufferSizeAndInvSize (View E)))"

definition ScreenPosition :: "shader_env \<Rightarrow> uint3 \<Rightarrow> float2" where
  "ScreenPosition E DispatchThreadId =
     ((fst (ScreenUV E DispatchThreadId) - w4 (ScreenPositionScaleBias (View E)))
        / x4 (ScreenPositionScaleBias (View E)),
      (snd (ScreenUV E DispatchThreadId) - z4 (ScreenPositionScaleBias (View E)))
        / y4 (ScreenPositionScaleBias (View E)))"

definition GBuffer :: "shader_env \<Rightarrow> uint3 \<Rightarrow> FGBufferData" where
  "GBuffer E DispatchThreadId = GetGBufferDataFromSceneTextures E (ScreenUV E DispatchThreadId)"

definition N :: "shader_env \<Rightarrow> uint3 \<Rightarrow> float3" where
  "N E DispatchThreadId = WorldNormal (GBuffer E DispatchThreadId)"

definition SceneDepth :: "shader_env \<Rightarrow> uint3 \<Rightarrow> float" where
  "SceneDepth E DispatchThreadId = Depth (GBuffer E DispatchThreadId)"

definition PositionTranslatedWorld :: "shader_env \<Rightarrow> uint3 \<Rightarrow> float4" where
  "PositionTranslatedWorld E DispatchThreadId =
     mul (fst (ScreenPosition E DispatchThreadId) * SceneDepth E DispatchThreadId,
          snd (ScreenPosition E DispatchThreadId) * SceneDepth E DispatchThreadId,
          SceneDepth E DispatchThreadId, 1)
         (ScreenToTranslatedWorld (View E))"

definition test :: "shader_env \<Rightarrow> uint3 \<Rightarrow> float4" where
  "test E DispatchThreadId =
     mul (0, 0, z4 (PositionTranslatedWorld E DispatchThreadId), 1) (TranslatedWorldToClip (View E))"

definition Dither :: "shader_env \<Rightarrow> uint3 \<Rightarrow> float" where
  "Dither E DispatchThreadId =
     InterleavedGradientNoise E
       (real (unat (x3 DispatchThreadId)) + 1 / 2, real (unat (y3 DispatchThreadId)) + 1 / 2)
       (real (unat (StateFrameIndexMod8 (View E))))"

definition LightDirection :: "shader_env \<Rightarrow> float3" where
  "LightDirection E =
     (- x4 (LightPositionOrDirection E), - y4 (LightPositionOrDirection E),
      - z4 (LightPositionOrDirection E))"

definition NdotL :: "shader_env \<Rightarrow> uint3 \<Rightarrow> float" where
  "NdotL E DispatchThreadId = dot (N E DispatchThreadId) (LightDirection E)"

definition contactShadowLength :: float where
  "contactShadowLength = 1"

definition RayLength :: "shader_env \<Rightarrow> uint3 \<Rightarrow> float" where
  "RayLength E DispatchThreadId =
     (snd (GetTanHalfFieldOfView E) * SceneDepth E DispatchThreadId) * contactShadowLength"

definition startClip :: "shader_env \<Rightarrow> uint3 \<Rightarrow> float4" where
  "startClip E DispatchThreadId =
     mul (PositionTranslatedWorld E DispatchThreadId) (TranslatedWorldToClip (View E))"

definition dirClip :: "shader_env \<Rightarrow> uint3 \<Rightarrow> float4" where
  "dirClip E DispatchThreadId =
     mul (x3 (LightDirection E) * RayLength E DispatchThreadId,
          y3 (LightDirection E) * RayLength E DispatchThreadId,
          z3 (LightDirection E) * RayLength E DispatchThreadId, 0)
         (TranslatedWorldToClip (View E))"

definition endClip :: "shader_env \<Rightarrow> uint3 \<Rightarrow> float4" where
  "endClip E DispatchThreadId = add4 (startClip E DispatchThreadId) (dirClip E DispatchThreadId)"

definition startScreen :: "shader_env \<Rightarrow> uint3 \<Rightarrow> float3" where
  "startScreen E DispatchThreadId = xyz_over_w (startClip E DispatchThreadId)"

definition endScreen :: "shader_env \<Rightarrow> uint3 \<Rightarrow> float3" where
  "endScreen E DispatchThreadId = xyz_over_w (endClip E DispatchThreadId)"

definition stepScreen :: "shader_env \<Rightarrow> uint3 \<Rightarrow> float3" where
  "stepScreen E DispatchThreadId =
     (x3 (endScreen E DispatchThreadId) - x3 (startScreen E DispatchThreadId),
      y3 (endScreen E DispatchThreadId) - y3 (startScreen E DispatchThreadId),
      z3 (endScreen E DispatchThreadId) - z3 (startScreen E DispatchThreadId))"

definition startUVZ :: "shader_env \<Rightarrow> uint3 \<Rightarrow> float3" where
  "startUVZ E DispatchThreadId =
     (x3 (startScreen E DispatchThreadId) * x4 (ScreenPositionScaleBias (View E))
        + w4 (ScreenPositionScaleBias (View E)),
      y3 (startScreen E DispatchThreadId) * y4 (ScreenPositionScaleBias (View E))
        + z4 (ScreenPositionScaleBias (View E)),
      z3 (startScreen E DispatchThreadId))"

definition stepUVZ :: "shader_env \<Rightarrow> uint3 \<Rightarrow> float3" where
  "stepUVZ E DispatchThreadId =
     (x3 (stepScreen E DispatchThreadId) * x4 (ScreenPositionScaleBias (View E)),
      y3 (stepScreen E DispatchThreadId) * y4 (ScreenPositionScaleBias (View E)),
      z3 (stepScreen E DispatchThreadId))"

definition depthClip :: "shader_env \<Rightarrow> uint3 \<Rightarrow> float4" where
  "depthClip E DispatchThreadId =
     add4 (startClip E DispatchThreadId)
          (mul (0, 0, RayLength E DispatchThreadId, 0) (ViewToClip (View E)))"

definition depthScreen :: "shader_env \<Rightarrow> uint3 \<Rightarrow> float3" where
  "depthScreen E DispatchThreadId = xyz_over_w (depthClip E DispatchThreadId)"

definition stepOffset :: "shader_env \<Rightarrow> uint3 \<Rightarrow> float" where
  "stepOffset E DispatchThreadId = Dither E DispatchThreadId - 1 / 2"

definition step :: float where
  "step = 1 / real NumSteps"

text \<open>The value \<open>sampleTime\<close> is initialised with.\<close>

definition sampleTime_init :: "shader_env \<Rightarrow> uint3 \<Rightarrow> float" where
  "sampleTime_init E DispatchThreadId = stepOffset E DispatchThreadId * step + step"

definition CompareTolerance :: "shader_env \<Rightarrow> uint3 \<Rightarrow> float" where
  "CompareTolerance E DispatchThreadId =
     \<bar>z3 (depthScreen E DispatchThreadId) - z3 (startScreen E DispatchThreadId)\<bar>
       * step * CompareTorelanceScale"

subsection \<open>\<open>Main_CS\<close>: one iteration of the march\<close>

text \<open>The locals of the loop body, as functions of the loop-carried \<open>sampleTime\<close>.\<close>

definition sampleUVZ :: "shader_env \<Rightarrow> uint3 \<Rightarrow> float \<Rightarrow> float3" where
  "sampleUVZ E DispatchThreadId sampleTime =
     (x3 (startUVZ E DispatchThreadId) + x3 (stepUVZ E DispatchThreadId) * sampleTime,
      y3 (startUVZ E DispatchThreadId) + y3 (stepUVZ E DispatchThreadId) * sampleTime,
      z3 (startUVZ E DispatchThreadId) + z3 (stepUVZ E DispatchThreadId) * sampleTime)"

definition sampleDepthWorld :: "shader_env \<Rightarrow> uint3 \<Rightarrow> float \<Rightarrow> float" where
  "sampleDepthWorld E DispatchThreadId sampleTime =
     Depth (GetGBufferDataFromSceneTextures E (xy3 (sampleUVZ E DispatchThreadId sampleTime)))"

definition sampleDepth :: "shader_env \<Rightarrow> uint3 \<Rightarrow> float \<Rightarrow> float" where
  "sampleDepth E DispatchThreadId sampleTime =
     ConvertToDeviceZ E (sampleDepthWorld E DispatchThreadId sampleTime)"

definition depthDiff :: "shader_env \<Rightarrow> uint3 \<Rightarrow> float \<Rightarrow> float" where
  "depthDiff E DispatchThreadId sampleTime =
     z3 (sampleUVZ E DispatchThreadId sampleTime) - sampleDepth E DispatchThreadId sampleTime"

definition selfOcclusion :: "shader_env \<Rightarrow> uint3 \<Rightarrow> float \<Rightarrow> bool" where
  "selfOcclusion E DispatchThreadId sampleTime =
     (\<bar>z3 (startUVZ E DispatchThreadId) - sampleDepth E DispatchThreadId sampleTime\<bar>
        < 1 / 100000)"

definition Hit :: "shader_env \<Rightarrow> uint3 \<Rightarrow> float \<Rightarrow> bool" where
  "Hit E DispatchThreadId sampleTime =
     (\<bar>depthDiff E DispatchThreadId sampleTime + CompareTolerance E DispatchThreadId\<bar>
        < CompareTolerance E DispatchThreadId
      \<and> \<not> selfOcclusion E DispatchThreadId sampleTime)"

text \<open>
  The debug block that records the sample trail of the thread (233, 250). The
  subtraction is done on \<open>uint\<close> and wraps; \<open>abs\<close> reads the difference as signed.
\<close>

definition samplePixel :: "shader_env \<Rightarrow> uint3 \<Rightarrow> float \<Rightarrow> float2" where
  "samplePixel E DispatchThreadId sampleTime =
     (x3 (sampleUVZ E DispatchThreadId sampleTime) * x4 (BufferSizeAndInvSize (View E))
        - 1 / 2 - x4 (ViewRectMin (View E)),
      y3 (sampleUVZ E DispatchThreadId sampleTime) * y4 (BufferSizeAndInvSize (View E))
        - 1 / 2 - y4 (ViewRectMin (View E)))"

definition samplePixelInt :: "shader_env \<Rightarrow> uint3 \<Rightarrow> float \<Rightarrow> uint2" where
  "samplePixelInt E DispatchThreadId sampleTime =
     (float_to_uint (fst (samplePixel E DispatchThreadId sampleTime)),
      float_to_uint (snd (samplePixel E DispatchThreadId sampleTime)))"

definition debug_trail :: "shader_env \<Rightarrow> uint3 \<Rightarrow> float \<Rightarrow> surfaces \<Rightarrow> surfaces" where
  "debug_trail E DispatchThreadId sampleTime S =
     (if real_of_int \<bar>sint (x3 DispatchThreadId - 233)\<bar> < 1 / 100
         \<and> real_of_int \<bar>sint (y3 DispatchThreadId - 250)\<bar> < 1 / 100
      then
        let S1 = S\<lparr>testFactors := (testFactors S)(xy3 DispatchThreadId := (1, 0))\<rparr>
        in if all_inside (xy3 (sampleUVZ E DispatchThreadId sampleTime))
           then S1\<lparr>testFactors :=
                  (testFactors S1)(samplePixelInt E DispatchThreadId sampleTime := (1, 0))\<rparr>
           else S1
      else S)"

text \<open>
  The body either leaves the shader (\<open>Return\<close>, with the surfaces as they are then) or
  goes on to the next iteration with the advanced \<open>sampleTime\<close>.
\<close>

datatype flow = Return surfaces | Continue float surfaces

definition loop_body :: "shader_env \<Rightarrow> uint3 \<Rightarrow> float \<Rightarrow> surfaces \<Rightarrow> flow" where
  "loop_body E DispatchThreadId sampleTime S =
     (let S1 = debug_trail E DispatchThreadId sampleTime S
      in if Hit E DispatchThreadId sampleTime
            \<and> all_inside (xy3 (sampleUVZ E DispatchThreadId sampleTime))
         then Return (S1\<lparr>RWShadowFactors :=
                 (RWShadowFactors S1)(xy3 DispatchThreadId := (0, SceneDepth E DispatchThreadId))\<rparr>)
         else Continue (sampleTime + 1 / real NumSteps) S1)"

subsection \<open>\<open>Main_CS\<close>: the loop and the shader\<close>

text \<open>
  \<open>for (int i = 0; i < NumSteps; i++)\<close>, entered at \<open>i\<close>. The result is the value of
  \<open>i\<close> when the loop is left (the index of the returning iteration, or \<open>NumSteps\<close>)
  and the surfaces.
\<close>

function march :: "shader_env \<Rightarrow> uint3 \<Rightarrow> nat \<Rightarrow> float \<Rightarrow> surfaces \<Rightarrow> nat \<times> surfaces" where
  "march E DispatchThreadId i sampleTime S =
     (if i < NumSteps
      then (case loop_body E DispatchThreadId sampleTime S of
              Return S' \<Rightarrow> (i, S')
            | Continue sampleTime' S' \<Rightarrow> march E DispatchThreadId (i + 1) sampleTime' S')
      else (i, S))"
  by pat_completeness auto
termination
  by (relation "measure (\<lambda>(E, DispatchThreadId, i, sampleTime, S). NumSteps - i)") auto

declare march.simps [simp del]

definition Main_CS :: "shader_env \<Rightarrow> uint3 \<Rightarrow> uint3 \<Rightarrow> uint3 \<Rightarrow> surfaces \<Rightarrow> surfaces" where
  "Main_CS E GroupId DispatchThreadId GroupThreadId S =
     (let S1 = S\<lparr>RWShadowFactors := (RWShadowFactors S)
                 (xy3 DispatchThreadId :=
                    (z4 (test E DispatchThreadId), w4 (test E DispatchThreadId)))\<rparr>;
          S2 = S1\<lparr>RWShadowFactors := (RWShadowFactors S1)(xy3 DispatchThreadId := (0, 1))\<rparr>
      in if NdotL E DispatchThreadId \<le> 0
         then S2\<lparr>RWShadowFactors :=
                (RWShadowFactors S2)(xy3 DispatchThreadId := (0, SceneDepth E DispatchThreadId))\<rparr>
         else
           let S3 = S2\<lparr>RWShadowFactors :=
                      (RWShadowFactors S2)(xy3 DispatchThreadId := (1, SceneDepth E DispatchThreadId))\<rparr>;
               S4 = S3\<lparr>testFactors := (testFactors S3)(xy3 DispatchThreadId := (0, 0))\<rparr>
           in snd (march E DispatchThreadId 0 (sampleTime_init E DispatchThreadId) S4))"

text \<open>
  The value of the loop-carried \<open>sampleTime\<close> on entry to iteration \<open>i\<close>: initialised
  before the loop, advanced at the end of every iteration that does not return.
\<close>

primrec sampleTime_at :: "shader_env \<Rightarrow> uint3 \<Rightarrow> nat \<Rightarrow> float" where
  "sampleTime_at E DispatchThreadId 0 = sampleTime_init E DispatchThreadId"
| "sampleTime_at E DispatchThreadId (Suc i) = sampleTime_at E DispatchThreadId i + 1 / real NumSteps"

text \<open>The condition of the \<open>if\<close> that writes the shadowed result, at iteration \<open>i\<close>.\<close>

definition hit_on_screen :: "shader_env \<Rightarrow> uint3 \<Rightarrow> nat \<Rightarrow> bool" where
  "hit_on_screen E DispatchThreadId i =
     (Hit E DispatchThreadId (sampleTime_at E DispatchThreadId i)
      \<and> all_inside (xy3 (sampleUVZ E DispatchThreadId (sampleTime_at E DispatchThreadId i))))"

text \<open>
  Iteration \<open>k\<close> of the loop is run: it is below \<open>NumSteps\<close> and no earlier iteration
  has returned. \<open>runs_from\<close> is the same for the loop entered at \<open>i\<close>, and \<open>trail_mark\<close>
  says that the debug block of iteration \<open>k\<close>, in the thread it is enabled for, writes the
  slot \<open>q\<close> of \<open>testFactors\<close>.
\<close>

definition step_runs :: "shader_env \<Rightarrow> uint3 \<Rightarrow> nat \<Rightarrow> bool" where
  "step_runs E DispatchThreadId k =
     (k < NumSteps \<and> (\<forall>j<k. \<not> hit_on_screen E DispatchThreadId j))"

definition runs_from :: "shader_env \<Rightarrow> uint3 \<Rightarrow> nat \<Rightarrow> nat \<Rightarrow> bool" where
  "runs_from E DispatchThreadId i k =
     (i \<le> k \<and> k < NumSteps \<and> (\<forall>j. i \<le> j \<and> j < k \<longrightarrow> \<not> hit_on_screen E DispatchThreadId j))"

definition trail_mark :: "shader_env \<Rightarrow> uint3 \<Rightarrow> uint2 \<Rightarrow> nat \<Rightarrow> bool" where
  "trail_mark E DispatchThreadId q k =
     (q = xy3 DispatchThreadId
      \<or> (all_inside (xy3 (sampleUVZ E DispatchThreadId (sampleTime_at E DispatchThreadId k)))
          \<and> q = samplePixelInt E DispatchThreadId (sampleTime_at E DispatchThreadId k)))"

subsection \<open>The host: \<open>FSceneRenderer::RenderScreenSpaceShadows\<close>\<close>

text \<open>
  Of the host function, the model keeps what decides which compute passes are issued and
  with which parameters: the iteration over the views and over the shadows, the
  \<open>bAllocated\<close> test, the light parameter, the group counts and the early
  \<open>return false\<close>. Texture creation and parameter binding have no control flow and are
  left out. The engine's light-type enumeration and \<open>FIntRect\<close> (with its extent,
  \<open>Max - Min\<close>) are not part of the sources; they are declared here as the host code
  uses them.
\<close>

datatype ELightComponentType =
  LightType_Directional | LightType_Point | LightType_Spot | LightType_Rect

record FLightSceneProxy =
  GetDirection :: float3
  GetPosition :: float3
  GetLightType :: ELightComponentType

record FProjectedShadowInfo =
  bRayTracedDistanceField :: bool
  bAllocated :: bool
  Proxy :: FLightSceneProxy

record FIntRect =
  MinX :: int32
  MinY :: int32
  MaxX :: int32
  MaxY :: int32

definition Width :: "FIntRect \<Rightarrow> int32" where
  "Width r = MaxX r - MinX r"

definition Height :: "FIntRect \<Rightarrow> int32" where
  "Height r = MaxY r - MinY r"

record FViewInfo =
  ViewRect :: FIntRect

text \<open>
  Modelled from the spec: \<open>FMath::DivideAndRoundUp\<close> is engine code that is not part of
  the sources. It is the quotient rounded up, computed in the operand type (here
  \<open>int32\<close>, with the truncating division of C++) as \<open>(Dividend + Divisor - 1) / Divisor\<close>.
\<close>

definition DivideAndRoundUp :: "int32 \<Rightarrow> int32 \<Rightarrow> int32" where
  "DivideAndRoundUp Dividend Divisor =
     word_of_int (sint (Dividend + Divisor - 1) sdiv sint Divisor)"

text \<open>A compute pass added to the graph and executed: its light parameter and group counts.\<close>

record compute_pass =
  PassLightPositionOrDirection :: float4
  GroupCount :: "int32 \<times> int32 \<times> int32"

text \<open>The value the host binds to the shader parameter \<open>LightPositionOrDirection\<close>.\<close>

definition host_LightPositionOrDirection :: "FLightSceneProxy \<Rightarrow> float4" where
  "host_LightPositionOrDirection P =
     (let LightDirection = GetDirection P;
          LightPosition = GetPosition P;
          bIsDirectional = (GetLightType P = LightType_Directional)
      in if bIsDirectional
         then (x3 LightDirection, y3 LightDirection, z3 LightDirection, 0)
         else (x3 LightPosition, y3 LightPosition, z3 LightPosition, 1))"

text \<open>
  The function either has returned (with its value) or is still running; both carry the
  passes executed so far.
\<close>

datatype host_flow = Returned bool "compute_pass list" | Running "compute_pass list"

text \<open>The body of the \<open>if (ProjectedShadowInfo->bAllocated)\<close> block.\<close>

definition dispatch_shadow ::
  "FViewInfo \<Rightarrow> FProjectedShadowInfo \<Rightarrow> compute_pass list \<Rightarrow> host_flow" where
  "dispatch_shadow ViewInfo ProjectedShadowInfo passes =
     (let ScissorRect = ViewRect ViewInfo;
          ShadowsTextureViewRect =
            \<lparr>MinX = 0, MinY = 0, MaxX = Width ScissorRect, MaxY = Height ScissorRect\<rparr>;
          GroupSizeX = DivideAndRoundUp (Width ShadowsTextureViewRect) 8;
          GroupSizeY = DivideAndRoundUp (Height ShadowsTextureViewRect) 8
      in if GroupSizeX = 0 \<or> GroupSizeY = 0
         then Returned False passes
         else Running (passes @
                [\<lparr>PassLightPositionOrDirection =
                    host_LightPositionOrDirection (Proxy ProjectedShadowInfo),
                  GroupCount = (GroupSizeX, GroupSizeY, 1)\<rparr>]))"

fun shadow_loop ::
  "FViewInfo \<Rightarrow> FProjectedShadowInfo list \<Rightarrow> compute_pass list \<Rightarrow> host_flow" where
  "shadow_loop ViewInfo [] passes = Running passes"
| "shadow_loop ViewInfo (ProjectedShadowInfo # rest) passes =
     (if bAllocated ProjectedShadowInfo
      then (case dispatch_shadow ViewInfo ProjectedShadowInfo passes of
              Returned b passes' \<Rightarrow> Returned b passes'
            | Running passes' \<Rightarrow> shadow_loop ViewInfo rest passes')
      else shadow_loop ViewInfo rest passes)"

fun view_loop ::
  "FViewInfo list \<Rightarrow> FProjectedShadowInfo list \<Rightarrow> compute_pass list \<Rightarrow> host_flow" where
  "view_loop [] NormalShadows passes = Running passes"
| "view_loop (ViewInfo # rest) NormalShadows passes =
     (case shadow_loop ViewInfo NormalShadows passes of
        Returned b passes' \<Rightarrow> Returned b passes'
      | Running passes' \<Rightarrow> view_loop rest NormalShadows passes')"

definition RenderScreenSpaceShadows ::
  "FViewInfo list \<Rightarrow> FProjectedShadowInfo list \<Rightarrow> compute_pass list \<Rightarrow> bool \<times> compute_pass list" where
  "RenderScreenSpaceShadows Views ShadowsToProject passes =
     (let NormalShadows = filter (\<lambda>p. \<not> bRayTracedDistanceField p) ShadowsToProject
      in if length NormalShadows > 0
         then (case view_loop Views NormalShadows passes of
                 Returned b passes' \<Rightarrow> (b, passes')
               | Running passes' \<Rightarrow> (True, passes'))
         else (True, passes))"

text \<open>The passes a run has executed, and the test that a pass has no empty dimension.\<close>

fun executed :: "host_flow \<Rightarrow> compute_pass list" where
  "executed (Returned b passes) = passes"
| "executed (Running passes) = passes"

definition nonzero_groups :: "compute_pass \<Rightarrow> bool" where
  "nonzero_groups q = (x3 (GroupCount q) \<noteq> 0 \<and> y3 (GroupCount q) \<noteq> 0)"

subsection \<open>A concrete scene\<close>

text \<open>
  A 512 by 512 view, the camera at the origin looking along \<open>+z\<close> with a 90 degree field
  of view, near plane at 1 and reversed depth (device depth is \<open>1 / z\<close>), no dither. The
  depth buffer holds two depth levels, split at the column \<open>u = c\<close>.
\<close>

definition example_view :: ViewUniforms where
  "example_view =
     \<lparr>ViewRectMin = (0, 0, 0, 0),
      BufferSizeAndInvSize = (512, 512, 1 / 512, 1 / 512),
      ScreenPositionScaleBias = (1 / 2, - 1 / 2, 1 / 2, 1 / 2),
      ScreenToTranslatedWorld = ((1, 0, 0, 0), (0, 1, 0, 0), (0, 0, 1, 0), (0, 0, 0, 1)),
      TranslatedWorldToClip = ((1, 0, 0, 0), (0, 1, 0, 0), (0, 0, 0, 1), (0, 0, 1, 0)),
      ViewToClip = ((1, 0, 0, 0), (0, 1, 0, 0), (0, 0, 0, 1), (0, 0, 1, 0)),
      StateFrameIndexMod8 = 0\<rparr>"

definition two_levels :: "float3 \<Rightarrow> float \<Rightarrow> float \<Rightarrow> float \<Rightarrow> float2 \<Rightarrow> FGBufferData" where
  "two_levels n c d1 d2 uv = \<lparr>WorldNormal = n, Depth = (if fst uv \<le> c then d1 else d2)\<rparr>"

definition example_env :: "float4 \<Rightarrow> (float2 \<Rightarrow> FGBufferData) \<Rightarrow> shader_env" where
  "example_env L G =
     \<lparr>View = example_view,
      LightPositionOrDirection = L,
      GetGBufferDataFromSceneTextures = G,
      ConvertToDeviceZ = (\<lambda>d. 1 / d),
      InterleavedGradientNoise = (\<lambda>uv FrameId. 1 / 2),
      GetTanHalfFieldOfView = (1, 1)\<rparr>"

definition cleared :: surfaces where
  "cleared = \<lparr>RWShadowFactors = (\<lambda>p. (0, 0)), testFactors = (\<lambda>p. (0, 0))\<rparr>"

text \<open>Surfaces holding a value the shader never writes.\<close>

definition stale :: surfaces where
  "stale = \<lparr>RWShadowFactors = (\<lambda>p. (7, 7)), testFactors = (\<lambda>p. (7, 7))\<rparr>"

text \<open>
  Four scenes over this view. In \<open>wall_scene\<close> the light comes from the front right, the
  shaded surface is at depth 1 and everything right of the thread (233, 250) is at depth
  \<open>d2\<close>. \<open>edge_scene\<close> is the same with the split at the last columns, for a thread whose
  ray leaves the screen. In \<open>floor_scene\<close> the light points away from the camera over a
  buffer of constant depth. In \<open>backface_scene\<close> the light shines from behind the
  surface.
\<close>

definition wall_scene :: "float \<Rightarrow> shader_env" where
  "wall_scene d2 = example_env (- 1 / 2, 0, 1 / 2, 0) (two_levels (0, 0, - 1) (467 / 1024) 1 d2)"

definition edge_scene :: shader_env where
  "edge_scene =
     example_env (- 1 / 2, 0, 1 / 2, 0) (two_levels (0, 0, - 1) (1021 / 1024) 1 (128 / 131))"

definition floor_scene :: shader_env where
  "floor_scene = example_env (- 1 / 2, 0, - 1 / 2, 0) (two_levels (4 / 5, 0, - 3 / 5) 0 1 1)"

definition backface_scene :: shader_env where
  "backface_scene = example_env (0, 0, - 1, 0) (two_levels (0, 0, - 1) 0 1 1)"

text \<open>
  For the host: a point light, a shadow of it that is allocated, a view of 20 by 9 pixels
  and a view of width zero.
\<close>

definition point_light :: FLightSceneProxy where
  "point_light = \<lparr>GetDirection = (0, 0, 1), GetPosition = (300, 400, 500), GetLightType = LightType_Point\<rparr>"

definition point_shadow :: FProjectedShadowInfo where
  "point_shadow = \<lparr>bRayTracedDistanceField = False, bAllocated = True, Proxy = point_light\<rparr>"

definition view_20x9 :: FViewInfo where
  "view_20x9 = \<lparr>ViewRect = \<lparr>MinX = 4, MinY = 2, MaxX = 24, MaxY = 11\<rparr>\<rparr>"

definition view_0x9 :: FViewInfo where
  "view_0x9 = \<lparr>ViewRect = \<lparr>MinX = 4, MinY = 2, MaxX = 4, MaxY = 11\<rparr>\<rparr>"

section \<open>Properties\<close>

subsection \<open>Auxiliary facts about the loop\<close>

lemma debug_trail_RW: "RWShadowFactors (debug_trail E tid t S) = RWShadowFactors S"
  by (simp add: debug_trail_def Let_def)

lemma loop_body_Return:
  "Hit E tid t \<Longrightarrow> all_inside (xy3 (sampleUVZ E tid t)) \<Longrightarrow>
   loop_body E tid t S =
     Return ((debug_trail E tid t S)\<lparr>RWShadowFactors :=
       (RWShadowFactors S)(xy3 tid := (0, SceneDepth E tid))\<rparr>)"
  by (simp add: loop_body_def Let_def debug_trail_RW)

lemma loop_body_Continue:
  "\<not> (Hit E tid t \<and> all_inside (xy3 (sampleUVZ E tid t))) \<Longrightarrow>
   loop_body E tid t S = Continue (t + 1 / real NumSteps) (debug_trail E tid t S)"
  by (simp add: loop_body_def Let_def)

text \<open>
  What the loop, entered at iteration \<open>i\<close>, leaves in the output surface: the shadowed
  value in the thread's slot if some remaining iteration hits on screen, and nothing new
  otherwise.
\<close>

lemma march_RW:
  "RWShadowFactors (snd (march E tid i (sampleTime_at E tid i) S)) =
     (if \<exists>k. i \<le> k \<and> k < NumSteps \<and> hit_on_screen E tid k
      then (RWShadowFactors S)(xy3 tid := (0, SceneDepth E tid))
      else RWShadowFactors S)"
proof (induction "NumSteps - i" arbitrary: i S)
  case 0
  then have "\<not> i < NumSteps" by simp
  then show ?case by (subst march.simps) auto
next
  case (Suc n)
  then have lt: "i < NumSteps" by simp
  show ?case
  proof (cases "hit_on_screen E tid i")
    case True
    then have "\<exists>k. i \<le> k \<and> k < NumSteps \<and> hit_on_screen E tid k" using lt by blast
    moreover have "RWShadowFactors (snd (march E tid i (sampleTime_at E tid i) S))
        = (RWShadowFactors S)(xy3 tid := (0, SceneDepth E tid))"
      using True lt
      by (subst march.simps) (simp add: loop_body_Return hit_on_screen_def)
    ultimately show ?thesis by simp
  next
    case False
    have next_iteration: "march E tid i (sampleTime_at E tid i) S
        = march E tid (Suc i) (sampleTime_at E tid (Suc i))
            (debug_trail E tid (sampleTime_at E tid i) S)"
      using False lt
      by (subst march.simps) (simp add: loop_body_Continue hit_on_screen_def)
    have n: "n = NumSteps - Suc i" using Suc.hyps(2) by simp
    have later: "(\<exists>k. i \<le> k \<and> k < NumSteps \<and> hit_on_screen E tid k)
        = (\<exists>k. Suc i \<le> k \<and> k < NumSteps \<and> hit_on_screen E tid k)"
      using False by (metis Suc_leI le_neq_implies_less Suc_leD)
    have IH: "RWShadowFactors (snd (march E tid (Suc i) (sampleTime_at E tid (Suc i))
                 (debug_trail E tid (sampleTime_at E tid i) S))) =
        (if \<exists>k. Suc i \<le> k \<and> k < NumSteps \<and> hit_on_screen E tid k
         then (RWShadowFactors (debug_trail E tid (sampleTime_at E tid i) S))
                (xy3 tid := (0, SceneDepth E tid))
         else RWShadowFactors (debug_trail E tid (sampleTime_at E tid i) S))"
      using Suc.hyps(1)[OF n] .
    show ?thesis
      by (simp only: next_iteration IH later debug_trail_RW)
  qed
qed

lemma march_RW0:
  "RWShadowFactors (snd (march E tid 0 (sampleTime_init E tid) S)) =
     (if \<exists>k<NumSteps. hit_on_screen E tid k
      then (RWShadowFactors S)(xy3 tid := (0, SceneDepth E tid))
      else RWShadowFactors S)"
  using march_RW[of E tid 0 S] by simp

lemma Main_CS_RW:
  "RWShadowFactors (Main_CS E gid tid gtid S) =
     (RWShadowFactors S)(xy3 tid :=
        (if NdotL E tid \<le> 0 \<or> (\<exists>k<NumSteps. hit_on_screen E tid k)
         then (0, SceneDepth E tid)
         else (1, SceneDepth E tid)))"
  unfolding Main_CS_def Let_def
  by (auto simp: march_RW0)

lemma march_fst:
  "i \<le> NumSteps \<Longrightarrow> fst (march E tid i t S) \<le> NumSteps"
proof (induction E tid i t S rule: march.induct)
  case (1 E tid i t S)
  show ?case
  proof (cases "i < NumSteps")
    case True
    show ?thesis
    proof (cases "loop_body E tid t S")
      case (Return S')
      then show ?thesis using True by (subst march.simps) simp
    next
      case (Continue t' S')
      then show ?thesis using True "1.IH"[OF True Continue] by (subst march.simps) simp
    qed
  next
    case False
    then show ?thesis using "1.prems" by (subst march.simps) simp
  qed
qed

text \<open>
  The value of \<open>i\<close> when the loop is left: the first step from \<open>i\<close> on that hits on
  screen, or \<open>NumSteps\<close>.
\<close>

lemma march_exit:
  "i \<le> NumSteps \<Longrightarrow>
   i \<le> fst (march E tid i (sampleTime_at E tid i) S)
   \<and> fst (march E tid i (sampleTime_at E tid i) S) \<le> NumSteps
   \<and> (\<forall>k. i \<le> k \<and> k < fst (march E tid i (sampleTime_at E tid i) S) \<longrightarrow> \<not> hit_on_screen E tid k)
   \<and> (fst (march E tid i (sampleTime_at E tid i) S) < NumSteps \<longrightarrow>
        hit_on_screen E tid (fst (march E tid i (sampleTime_at E tid i) S)))"
proof (induction "NumSteps - i" arbitrary: i S)
  case 0
  then have "i = NumSteps" by simp
  then have "march E tid i (sampleTime_at E tid i) S = (i, S)"
    by (subst march.simps) simp
  then show ?case using \<open>i = NumSteps\<close> by auto
next
  case (Suc n)
  then have lt: "i < NumSteps" by simp
  show ?case
  proof (cases "hit_on_screen E tid i")
    case True
    then have "fst (march E tid i (sampleTime_at E tid i) S) = i"
      using lt by (subst march.simps) (simp add: loop_body_Return hit_on_screen_def)
    then show ?thesis using True lt by auto
  next
    case False
    have next_iteration: "march E tid i (sampleTime_at E tid i) S
        = march E tid (Suc i) (sampleTime_at E tid (Suc i))
            (debug_trail E tid (sampleTime_at E tid i) S)"
      using False lt
      by (subst march.simps) (simp add: loop_body_Continue hit_on_screen_def)
    have n: "n = NumSteps - Suc i" using Suc.hyps(2) by simp
    have le: "Suc i \<le> NumSteps" using lt by simp
    note IH = Suc.hyps(1)[OF n le, of "debug_trail E tid (sampleTime_at E tid i) S"]
    show ?thesis
      unfolding next_iteration using IH False
      by (metis Suc_leD Suc_leI le_neq_implies_less)
  qed
qed

lemma debug_thread_x: "real_of_int \<bar>sint (w - 233 :: 32 word)\<bar> < 1 / 100 \<longleftrightarrow> w = 233"
proof -
  have "real_of_int \<bar>sint (w - 233)\<bar> < 1 / 100 \<longleftrightarrow> \<bar>sint (w - 233)\<bar> = 0"
    by linarith
  also have "\<dots> \<longleftrightarrow> w - 233 = 0" by (simp add: signed_eq_0_iff)
  finally show ?thesis by simp
qed

lemma debug_thread_y: "real_of_int \<bar>sint (w - 250 :: 32 word)\<bar> < 1 / 100 \<longleftrightarrow> w = 250"
proof -
  have "real_of_int \<bar>sint (w - 250)\<bar> < 1 / 100 \<longleftrightarrow> \<bar>sint (w - 250)\<bar> = 0"
    by linarith
  also have "\<dots> \<longleftrightarrow> w - 250 = 0" by (simp add: signed_eq_0_iff)
  finally show ?thesis by simp
qed

lemma debug_trail_other:
  assumes "xy3 tid \<noteq> (233, 250)"
  shows "debug_trail E tid t S = S"
proof -
  have "\<not> (x3 tid = 233 \<and> y3 tid = 250)"
    using assms by auto
  then have "\<not> (real_of_int \<bar>sint (x3 tid - 233)\<bar> < 1 / 100
      \<and> real_of_int \<bar>sint (y3 tid - 250)\<bar> < 1 / 100)"
    unfolding debug_thread_x debug_thread_y .
  then show ?thesis
    unfolding debug_trail_def by (simp only: if_False)
qed

lemma march_testFactors:
  "xy3 tid \<noteq> (233, 250) \<Longrightarrow> testFactors (snd (march E tid i t S)) = testFactors S"
proof (induction E tid i t S rule: march.induct)
  case (1 E tid i t S)
  show ?case
  proof (cases "i < NumSteps")
    case True
    show ?thesis
    proof (cases "Hit E tid t \<and> all_inside (xy3 (sampleUVZ E tid t))")
      case hit: True
      then show ?thesis using True "1.prems"
        by (subst march.simps) (simp add: loop_body_Return debug_trail_other)
    next
      case False
      then have lb: "loop_body E tid t S = Continue (t + 1 / real NumSteps) S"
        using "1.prems" by (simp add: loop_body_Continue debug_trail_other)
      show ?thesis
        using True lb "1.IH"[OF True lb "1.prems"] by (subst march.simps) simp
    qed
  next
    case False
    then show ?thesis by (subst march.simps) simp
  qed
qed

lemma Main_CS_testFactors:
  "xy3 tid \<noteq> (233, 250) \<Longrightarrow>
   testFactors (Main_CS E gid tid gtid S) =
     (if NdotL E tid \<le> 0 then testFactors S else (testFactors S)(xy3 tid := (0, 0)))"
  by (simp add: Main_CS_def Let_def march_testFactors)

text \<open>
  The debug surface after the thread (233, 250): marked in the thread's own slot and at
  the sample pixel of every iteration that is run with its sample on screen.
\<close>

lemma debug_trail_thread:
  assumes "xy3 tid = (233, 250)"
  shows "testFactors (debug_trail E tid t S) q =
     (if q = xy3 tid \<or> (all_inside (xy3 (sampleUVZ E tid t)) \<and> q = samplePixelInt E tid t)
      then (1, 0) else testFactors S q)"
proof -
  have "x3 tid = 233 \<and> y3 tid = 250"
    using assms by simp
  then have c: "real_of_int \<bar>sint (x3 tid - 233)\<bar> < 1 / 100
      \<and> real_of_int \<bar>sint (y3 tid - 250)\<bar> < 1 / 100"
    unfolding debug_thread_x debug_thread_y .
  have "debug_trail E tid t S =
      (let S1 = S\<lparr>testFactors := (testFactors S)(xy3 tid := (1, 0))\<rparr>
        in if all_inside (xy3 (sampleUVZ E tid t))
           then S1\<lparr>testFactors := (testFactors S1)(samplePixelInt E tid t := (1, 0))\<rparr>
           else S1)"
    unfolding debug_trail_def by (simp only: c simp_thms if_True)
  then show ?thesis
    by (simp add: Let_def)
qed

lemma runs_from_self: "i < NumSteps \<Longrightarrow> runs_from E tid i i"
  by (auto simp: runs_from_def)

lemma runs_from_hit:
  "hit_on_screen E tid i \<Longrightarrow> (runs_from E tid i k \<longleftrightarrow> k = i \<and> i < NumSteps)"
proof
  assume hit: "hit_on_screen E tid i" and r: "runs_from E tid i k"
  have "k = i"
  proof (rule ccontr)
    assume "k \<noteq> i"
    then have "i \<le> i \<and> i < k" using r by (simp add: runs_from_def)
    then have "\<not> hit_on_screen E tid i" using r unfolding runs_from_def by blast
    then show False using hit by simp
  qed
  then show "k = i \<and> i < NumSteps" using r by (simp add: runs_from_def)
next
  assume "hit_on_screen E tid i" "k = i \<and> i < NumSteps"
  then show "runs_from E tid i k" by (simp add: runs_from_self)
qed

lemma runs_from_miss:
  "\<not> hit_on_screen E tid i \<Longrightarrow> i < NumSteps \<Longrightarrow>
   runs_from E tid i k \<longleftrightarrow> k = i \<or> runs_from E tid (Suc i) k"
  unfolding runs_from_def
  by (metis Suc_leD Suc_leI le_neq_implies_less order_refl less_irrefl not_less_eq_eq)

lemma debug_trail_mark:
  "xy3 tid = (233, 250) \<Longrightarrow>
   testFactors (debug_trail E tid (sampleTime_at E tid i) S) q =
     (if trail_mark E tid q i then (1, 0) else testFactors S q)"
  unfolding trail_mark_def by (rule debug_trail_thread)

lemma march_trail:
  assumes dbg: "xy3 tid = (233, 250)"
  shows "testFactors (snd (march E tid i (sampleTime_at E tid i) S)) q =
     (if \<exists>k. runs_from E tid i k \<and> trail_mark E tid q k then (1, 0) else testFactors S q)"
proof (induction "NumSteps - i" arbitrary: i S)
  case 0
  then have "\<not> i < NumSteps" by simp
  then have m: "march E tid i (sampleTime_at E tid i) S = (i, S)"
    by (subst march.simps) simp
  have "\<not> runs_from E tid i k" for k
    using \<open>\<not> i < NumSteps\<close> by (simp add: runs_from_def)
  then show ?case unfolding m by simp
next
  case (Suc n)
  then have lt: "i < NumSteps" by simp
  let ?t = "sampleTime_at E tid i"
  show ?case
  proof (cases "hit_on_screen E tid i")
    case True
    have "testFactors (snd (march E tid i ?t S)) q = testFactors (debug_trail E tid ?t S) q"
      using True lt by (subst march.simps) (simp add: loop_body_Return hit_on_screen_def)
    moreover have "(\<exists>k. runs_from E tid i k \<and> trail_mark E tid q k) \<longleftrightarrow> trail_mark E tid q i"
      using lt by (auto simp: runs_from_hit[OF True])
    ultimately show ?thesis
      by (simp only: debug_trail_mark[OF dbg])
  next
    case False
    have next_iteration: "march E tid i ?t S
        = march E tid (Suc i) (sampleTime_at E tid (Suc i)) (debug_trail E tid ?t S)"
      using False lt
      by (subst march.simps) (simp add: loop_body_Continue hit_on_screen_def)
    have n: "n = NumSteps - Suc i" using Suc.hyps(2) by simp
    have IH: "testFactors (snd (march E tid (Suc i) (sampleTime_at E tid (Suc i))
                 (debug_trail E tid ?t S))) q =
        (if \<exists>k. runs_from E tid (Suc i) k \<and> trail_mark E tid q k then (1, 0)
         else testFactors (debug_trail E tid ?t S) q)"
      using Suc.hyps(1)[OF n] .
    have split: "(\<exists>k. runs_from E tid i k \<and> trail_mark E tid q k)
        \<longleftrightarrow> trail_mark E tid q i \<or> (\<exists>k. runs_from E tid (Suc i) k \<and> trail_mark E tid q k)"
      by (auto simp: runs_from_miss[OF False lt])
    show ?thesis
      unfolding next_iteration IH split debug_trail_mark[OF dbg] by auto
  qed
qed

lemma runs_from_0: "runs_from E tid 0 k = step_runs E tid k"
  by (simp add: runs_from_def step_runs_def)

lemma Main_CS_trail:
  assumes "xy3 tid = (233, 250)" "0 < NdotL E tid"
  shows "testFactors (Main_CS E gid tid gtid S) q =
     (if q = xy3 tid
         \<or> (\<exists>k. step_runs E tid k
               \<and> all_inside (xy3 (sampleUVZ E tid (sampleTime_at E tid k)))
               \<and> q = samplePixelInt E tid (sampleTime_at E tid k))
      then (1, 0) else testFactors S q)"
proof -
  let ?S4 = "S\<lparr>RWShadowFactors := (RWShadowFactors S)(xy3 tid := (1, SceneDepth E tid)),
           testFactors := (testFactors S)(xy3 tid := (0, 0))\<rparr>"
  have run0: "step_runs E tid 0" by (simp add: step_runs_def NumSteps_def)
  have m0: "testFactors (Main_CS E gid tid gtid S) q =
      testFactors (snd (march E tid 0 (sampleTime_at E tid 0) ?S4)) q"
    using assms(2) by (simp add: Main_CS_def Let_def)
  note mt = march_trail[OF assms(1), of E 0 ?S4 q, unfolded runs_from_0]
  show ?thesis
  proof (cases "q = xy3 tid")
    case True
    have "\<exists>k. step_runs E tid k \<and> trail_mark E tid q k"
      using run0 True by (auto simp: trail_mark_def)
    then show ?thesis unfolding m0 mt using True by simp
  next
    case False
    then show ?thesis unfolding m0 mt by (auto simp: trail_mark_def)
  qed
qed

lemma Main_CS_backface_testFactors:
  "NdotL E tid \<le> 0 \<Longrightarrow> testFactors (Main_CS E gid tid gtid S) = testFactors S"
  by (simp add: Main_CS_def Let_def)

text \<open>
  \<open>Main_CS\<close> reads the light parameter through \<open>LightDirection\<close> only: two
  environments with the same light direction and otherwise the same inputs give the same
  result.
\<close>

lemma march_cong:
  "(\<And>t S. loop_body E tid t S = loop_body E' tid t S) \<Longrightarrow>
   march E tid i t S = march E' tid i t S"
proof (induction E tid i t S rule: march.induct)
  case (1 E tid i t S)
  show ?case
  proof (cases "i < NumSteps")
    case True
    show ?thesis
    proof (cases "loop_body E tid t S")
      case (Return S')
      then show ?thesis using True "1.prems"[of t S]
        by (simp add: march.simps[of E tid i t S] march.simps[of E' tid i t S])
    next
      case (Continue t' S')
      then show ?thesis using True "1.prems"[of t S] "1.IH"[OF True Continue "1.prems"]
        by (simp add: march.simps[of E tid i t S] march.simps[of E' tid i t S])
    qed
  next
    case False
    then show ?thesis
      by (simp add: march.simps[of E tid i t S] march.simps[of E' tid i t S])
  qed
qed

lemma Main_CS_cong:
  assumes L: "LightDirection E1 = LightDirection E2"
    and same: "View E1 = View E2"
      "GetGBufferDataFromSceneTextures E1 = GetGBufferDataFromSceneTextures E2"
      "ConvertToDeviceZ E1 = ConvertToDeviceZ E2"
      "InterleavedGradientNoise E1 = InterleavedGradientNoise E2"
      "GetTanHalfFieldOfView E1 = GetTanHalfFieldOfView E2"
  shows "Main_CS E1 gid tid gtid S = Main_CS E2 gid tid gtid S"
proof -
  have uv: "ScreenUV E1 tid = ScreenUV E2 tid"
    by (simp add: ScreenUV_def same)
  have gb: "GBuffer E1 tid = GBuffer E2 tid"
    by (simp add: GBuffer_def uv) (simp add: same)
  have sd: "SceneDepth E1 tid = SceneDepth E2 tid"
    by (simp add: SceneDepth_def gb)
  have nl: "NdotL E1 tid = NdotL E2 tid"
    by (simp add: NdotL_def N_def gb L)
  have sp: "ScreenPosition E1 tid = ScreenPosition E2 tid"
    by (simp add: ScreenPosition_def uv) (simp add: same)
  have pw: "PositionTranslatedWorld E1 tid = PositionTranslatedWorld E2 tid"
    by (simp add: PositionTranslatedWorld_def sp sd) (simp add: same)
  have te: "test E1 tid = test E2 tid"
    by (simp add: test_def pw) (simp add: same)
  have rl: "RayLength E1 tid = RayLength E2 tid"
    by (simp add: RayLength_def sd) (simp add: same)
  have sc: "startClip E1 tid = startClip E2 tid"
    by (simp add: startClip_def pw) (simp add: same)
  have dc: "dirClip E1 tid = dirClip E2 tid"
    by (simp add: dirClip_def rl L) (simp add: same)
  have ss: "startScreen E1 tid = startScreen E2 tid"
    by (simp add: startScreen_def sc)
  have es: "endScreen E1 tid = endScreen E2 tid"
    by (simp add: endScreen_def endClip_def sc dc)
  have su: "startUVZ E1 tid = startUVZ E2 tid"
    by (simp add: startUVZ_def ss) (simp add: same)
  have st: "stepUVZ E1 tid = stepUVZ E2 tid"
    by (simp add: stepUVZ_def stepScreen_def ss es) (simp add: same)
  have ds: "depthScreen E1 tid = depthScreen E2 tid"
    by (simp add: depthScreen_def depthClip_def sc rl) (simp add: same)
  have ct: "CompareTolerance E1 tid = CompareTolerance E2 tid"
    by (simp add: CompareTolerance_def ds ss)
  have ti: "sampleTime_init E1 tid = sampleTime_init E2 tid"
    by (simp add: sampleTime_init_def stepOffset_def Dither_def) (simp add: same)
  have suv: "sampleUVZ E1 tid t = sampleUVZ E2 tid t" for t
    by (simp add: sampleUVZ_def su st)
  have sdp: "sampleDepth E1 tid t = sampleDepth E2 tid t" for t
    by (simp add: sampleDepth_def sampleDepthWorld_def suv) (simp add: same)
  have hit: "Hit E1 tid t = Hit E2 tid t" for t
    by (simp add: Hit_def depthDiff_def selfOcclusion_def suv sdp ct su)
  have spi: "samplePixelInt E1 tid t = samplePixelInt E2 tid t" for t
    by (simp add: samplePixelInt_def samplePixel_def suv) (simp add: same)
  have dbg: "debug_trail E1 tid t S = debug_trail E2 tid t S" for t S
    by (simp only: debug_trail_def suv spi)
  have lb: "loop_body E1 tid t S = loop_body E2 tid t S" for t S
    by (simp add: loop_body_def Let_def dbg hit suv sd)
  have "march E1 tid 0 t S = march E2 tid 0 t S" for t S
    by (rule march_cong) (rule lb)
  then show ?thesis
    by (simp add: Main_CS_def Let_def te nl sd ti)
qed

text \<open>
  The ray in terms of the light parameter: the end point is the shading point displaced by
  \<open>RayLength\<close> times the negated first three components, and every sample lies on the
  segment from the start to that end point in screen space.
\<close>

lemma dirClip_light:
  "dirClip E tid =
     mul (- x4 (LightPositionOrDirection E) * RayLength E tid,
          - y4 (LightPositionOrDirection E) * RayLength E tid,
          - z4 (LightPositionOrDirection E) * RayLength E tid, 0)
         (TranslatedWorldToClip (View E))"
  by (simp add: dirClip_def LightDirection_def)

lemma mul_add4:
  "add4 (mul (x, y, z, w) M) (mul (a, b, c, 0) M) = mul (x + a, y + b, z + c, w) M"
proof -
  obtain r0 r1 r2 r3 where M: "M = (r0, r1, r2, r3)" by (cases M) auto
  obtain a0 a1 a2 a3 where r0: "r0 = (a0, a1, a2, a3)" by (cases r0) auto
  obtain b0 b1 b2 b3 where r1: "r1 = (b0, b1, b2, b3)" by (cases r1) auto
  obtain c0 c1 c2 c3 where r2: "r2 = (c0, c1, c2, c3)" by (cases r2) auto
  obtain d0 d1 d2 d3 where r3: "r3 = (d0, d1, d2, d3)" by (cases r3) auto
  show ?thesis
    by (simp add: M r0 r1 r2 r3 algebra_simps)
qed

lemma endClip_light:
  "endClip E tid =
     mul (x4 (PositionTranslatedWorld E tid) - x4 (LightPositionOrDirection E) * RayLength E tid,
          y4 (PositionTranslatedWorld E tid) - y4 (LightPositionOrDirection E) * RayLength E tid,
          z4 (PositionTranslatedWorld E tid) - z4 (LightPositionOrDirection E) * RayLength E tid,
          w4 (PositionTranslatedWorld E tid))
         (TranslatedWorldToClip (View E))"
proof -
  obtain x y z w where P: "PositionTranslatedWorld E tid = (x, y, z, w)"
    by (cases "PositionTranslatedWorld E tid") auto
  show ?thesis
    unfolding endClip_def startClip_def dirClip_light P mul_add4 by simp
qed

lemma sampleUVZ_ray:
  "sampleUVZ E tid t =
     (x3 (startUVZ E tid)
        + (x3 (xyz_over_w (endClip E tid)) - x3 (xyz_over_w (startClip E tid)))
            * x4 (ScreenPositionScaleBias (View E)) * t,
      y3 (startUVZ E tid)
        + (y3 (xyz_over_w (endClip E tid)) - y3 (xyz_over_w (startClip E tid)))
            * y4 (ScreenPositionScaleBias (View E)) * t,
      z3 (startUVZ E tid)
        + (z3 (xyz_over_w (endClip E tid)) - z3 (xyz_over_w (startClip E tid))) * t)"
  by (simp add: sampleUVZ_def stepUVZ_def stepScreen_def endScreen_def startScreen_def)

lemma light_update_locals:
  "PositionTranslatedWorld (E\<lparr>LightPositionOrDirection := L\<rparr>) tid = PositionTranslatedWorld E tid"
  "RayLength (E\<lparr>LightPositionOrDirection := L\<rparr>) tid = RayLength E tid"
  by (simp_all add: PositionTranslatedWorld_def ScreenPosition_def SceneDepth_def GBuffer_def
        ScreenUV_def RayLength_def)

lemma sampleTime_at_closed:
  "sampleTime_at E tid i = sampleTime_init E tid + real i / real NumSteps"
  by (induction i) (simp_all add: add_divide_distrib)

subsection \<open>Auxiliary facts about the host\<close>

lemma dispatch_shadow_eq:
  "dispatch_shadow V Sh passes =
     (if DivideAndRoundUp (Width (ViewRect V)) 8 = 0 \<or> DivideAndRoundUp (Height (ViewRect V)) 8 = 0
      then Returned False passes
      else Running (passes @
             [\<lparr>PassLightPositionOrDirection = host_LightPositionOrDirection (Proxy Sh),
               GroupCount = (DivideAndRoundUp (Width (ViewRect V)) 8,
                             DivideAndRoundUp (Height (ViewRect V)) 8, 1)\<rparr>]))"
  by (simp add: dispatch_shadow_def Let_def Width_def Height_def)

lemma dispatch_shadow_added:
  "\<exists>added. executed (dispatch_shadow V Sh passes) = passes @ added \<and> (\<forall>q\<in>set added. nonzero_groups q)"
  by (simp add: dispatch_shadow_eq nonzero_groups_def)

lemma shadow_loop_added:
  "\<exists>added. executed (shadow_loop V shadows passes) = passes @ added \<and> (\<forall>q\<in>set added. nonzero_groups q)"
proof (induction shadows arbitrary: passes)
  case Nil
  then show ?case by simp
next
  case (Cons Sh rest)
  show ?case
  proof (cases "bAllocated Sh")
    case False
    then show ?thesis using Cons.IH[of passes] by simp
  next
    case True
    obtain a1 where a1: "executed (dispatch_shadow V Sh passes) = passes @ a1"
        "\<forall>q\<in>set a1. nonzero_groups q"
      using dispatch_shadow_added by blast
    show ?thesis
    proof (cases "dispatch_shadow V Sh passes")
      case (Returned b p)
      then show ?thesis using True a1 by auto
    next
      case (Running p)
      obtain a2 where a2: "executed (shadow_loop V rest p) = p @ a2" "\<forall>q\<in>set a2. nonzero_groups q"
        using Cons.IH[of p] by blast
      have "executed (shadow_loop V (Sh # rest) passes) = passes @ (a1 @ a2)"
        using True Running a1 a2 by simp
      moreover have "\<forall>q\<in>set (a1 @ a2). nonzero_groups q"
        using a1 a2 by auto
      ultimately show ?thesis by blast
    qed
  qed
qed

lemma view_loop_added:
  "\<exists>added. executed (view_loop Views shadows passes) = passes @ added \<and> (\<forall>q\<in>set added. nonzero_groups q)"
proof (induction Views arbitrary: passes)
  case Nil
  then show ?case by simp
next
  case (Cons V rest)
  obtain a1 where a1: "executed (shadow_loop V shadows passes) = passes @ a1"
      "\<forall>q\<in>set a1. nonzero_groups q"
    using shadow_loop_added by blast
  show ?case
  proof (cases "shadow_loop V shadows passes")
    case (Returned b p)
    then show ?thesis using a1 by auto
  next
    case (Running p)
    obtain a2 where a2: "executed (view_loop rest shadows p) = p @ a2" "\<forall>q\<in>set a2. nonzero_groups q"
      using Cons.IH[of p] by blast
    have "executed (view_loop (V # rest) shadows passes) = passes @ (a1 @ a2)"
      using Running a1 a2 by simp
    moreover have "\<forall>q\<in>set (a1 @ a2). nonzero_groups q"
      using a1 a2 by auto
    ultimately show ?thesis by blast
  qed
qed

lemma RenderScreenSpaceShadows_added:
  "\<exists>added. snd (RenderScreenSpaceShadows Views Shadows passes) = passes @ added
     \<and> (\<forall>q\<in>set added. nonzero_groups q)"
proof -
  let ?ns = "filter (\<lambda>p. \<not> bRayTracedDistanceField p) Shadows"
  obtain a where a: "executed (view_loop Views ?ns passes) = passes @ a" "\<forall>q\<in>set a. nonzero_groups q"
    using view_loop_added by blast
  show ?thesis
  proof (cases "length ?ns > 0")
    case False
    then show ?thesis by (simp add: RenderScreenSpaceShadows_def)
  next
    case True
    then show ?thesis using a
      by (cases "view_loop Views ?ns passes") (auto simp: RenderScreenSpaceShadows_def Let_def)
  qed
qed

lemma shadow_loop_zero:
  assumes "DivideAndRoundUp (Width (ViewRect V)) 8 = 0 \<or> DivideAndRoundUp (Height (ViewRect V)) 8 = 0"
    and "\<exists>p\<in>set shadows. bAllocated p"
  shows "shadow_loop V shadows passes = Returned False passes"
  using assms(2)
proof (induction shadows)
  case Nil
  then show ?case by simp
next
  case (Cons Sh rest)
  show ?case
  proof (cases "bAllocated Sh")
    case True
    then show ?thesis using assms(1) by (simp add: dispatch_shadow_eq)
  next
    case False
    then show ?thesis using Cons by simp
  qed
qed

lemma DivideAndRoundUp_8:
  assumes "0 \<le> sint w" "sint w \<le> 2147483640"
  shows "sint (DivideAndRoundUp w 8) = (sint w + 7) div 8"
proof -
  have a: "w + 8 - 1 = w + 7" by simp
  have e: "sint (8 :: 32 word) = 8" by simp
  have b: "sint (w + 7) = sint w + 7"
    using assms by (simp add: sint_word_ariths signed_take_bit_int_eq_self)
  have c: "(sint w + 7) sdiv 8 = (sint w + 7) div 8"
    using assms by (simp add: signed_divide_int_def sgn_if)
  have d: "sint (word_of_int ((sint w + 7) div 8) :: 32 word) = (sint w + 7) div 8"
    using assms by (simp add: sint_word_ariths signed_take_bit_int_eq_self Word.sint_sbintrunc')
  show ?thesis
    unfolding DivideAndRoundUp_def a e b c by (rule d)
qed

lemma DivideAndRoundUp_0: "DivideAndRoundUp 0 8 = 0"
  by (simp add: DivideAndRoundUp_def signed_divide_int_def)

subsection \<open>The locals of \<open>Main_CS\<close> in the concrete scenes\<close>

lemma example_fields:
  "View (example_env L G) = example_view"
  "LightPositionOrDirection (example_env L G) = L"
  "GetGBufferDataFromSceneTextures (example_env L G) = G"
  "ConvertToDeviceZ (example_env L G) = (\<lambda>d. 1 / d)"
  "InterleavedGradientNoise (example_env L G) = (\<lambda>uv FrameId. 1 / 2)"
  "GetTanHalfFieldOfView (example_env L G) = (1, 1)"
  by (simp_all add: example_env_def)

lemma example_ScreenUV:
  "ScreenUV (example_env L G) t =
     ((real (unat (x3 t)) + 1 / 2) / 512, (real (unat (y3 t)) + 1 / 2) / 512)"
  by (simp add: ScreenUV_def example_fields example_view_def)

lemma example_ScreenPosition:
  "ScreenPosition (example_env L G) t =
     (2 * fst (ScreenUV (example_env L G) t) - 1, 1 - 2 * snd (ScreenUV (example_env L G) t))"
  by (simp add: ScreenPosition_def example_fields example_view_def field_simps)

lemma example_startClip:
  assumes "SceneDepth (example_env L G) t = 1"
  shows "startClip (example_env L G) t =
     (fst (ScreenPosition (example_env L G) t), snd (ScreenPosition (example_env L G) t), 1, 1)"
  by (simp add: startClip_def PositionTranslatedWorld_def assms)
     (simp add: example_fields example_view_def)

lemma example_startUVZ:
  assumes "SceneDepth (example_env L G) t = 1"
  shows "startUVZ (example_env L G) t =
     (fst (ScreenPosition (example_env L G) t) * (1 / 2) + 1 / 2,
      snd (ScreenPosition (example_env L G) t) * (- 1 / 2) + 1 / 2, 1)"
  by (simp add: startUVZ_def startScreen_def example_startClip[OF assms])
     (simp add: example_fields example_view_def)

lemma example_endScreen:
  assumes "SceneDepth (example_env L G) t = 1"
  shows "endScreen (example_env L G) t =
     ((fst (ScreenPosition (example_env L G) t) - x4 L) / (1 - z4 L),
      (snd (ScreenPosition (example_env L G) t) - y4 L) / (1 - z4 L),
      1 / (1 - z4 L))"
  by (simp add: endScreen_def endClip_def example_startClip[OF assms] dirClip_def RayLength_def
        assms LightDirection_def contactShadowLength_def)
     (simp add: example_fields example_view_def)

lemma example_stepUVZ:
  assumes "SceneDepth (example_env L G) t = 1"
  shows "stepUVZ (example_env L G) t =
     (((fst (ScreenPosition (example_env L G) t) - x4 L) / (1 - z4 L)
         - fst (ScreenPosition (example_env L G) t)) * (1 / 2),
      ((snd (ScreenPosition (example_env L G) t) - y4 L) / (1 - z4 L)
         - snd (ScreenPosition (example_env L G) t)) * (- 1 / 2),
      1 / (1 - z4 L) - 1)"
  by (simp add: stepUVZ_def stepScreen_def startScreen_def example_startClip[OF assms]
        example_endScreen[OF assms])
     (simp add: example_fields example_view_def)

lemma example_CompareTolerance:
  assumes "SceneDepth (example_env L G) t = 1"
  shows "CompareTolerance (example_env L G) t = 1 / 64"
  by (simp add: CompareTolerance_def depthScreen_def depthClip_def startScreen_def
        example_startClip[OF assms] RayLength_def assms contactShadowLength_def step_def
        NumSteps_def CompareTorelanceScale_def)
     (simp add: example_fields example_view_def)

lemma example_sampleTime_init: "sampleTime_init (example_env L G) t = 1 / 64"
  by (simp add: sampleTime_init_def stepOffset_def Dither_def step_def NumSteps_def)
     (simp add: example_fields example_view_def)

lemma wall_SceneDepth: "SceneDepth (wall_scene d) (233, 250, 0) = 1"
  by (simp add: SceneDepth_def GBuffer_def wall_scene_def example_ScreenUV example_fields two_levels_def)

lemma wall_NdotL: "NdotL (wall_scene d) (233, 250, 0) = 1 / 2"
  by (simp add: NdotL_def N_def LightDirection_def GBuffer_def wall_scene_def example_ScreenUV example_fields two_levels_def)

lemma wall_sampleTime: "sampleTime_init (wall_scene d) (233, 250, 0) = 1 / 64"
  by (simp add: wall_scene_def example_sampleTime_init)

lemma wall_sampleTime_at: "sampleTime_at (wall_scene d) (233, 250, 0) k = 1 / 64 + real k / 64"
  by (simp add: sampleTime_at_closed wall_sampleTime NumSteps_def)

lemma wall_CompareTolerance: "CompareTolerance (wall_scene d) (233, 250, 0) = 1 / 64"
  using wall_SceneDepth[of d] unfolding wall_scene_def by (rule example_CompareTolerance)

lemma wall_startUVZ: "startUVZ (wall_scene d) (233, 250, 0) = (467 / 1024, 501 / 1024, 1)"
  using wall_SceneDepth[of d] unfolding wall_scene_def
  by (simp add: example_startUVZ example_ScreenPosition example_ScreenUV)

lemma wall_stepUVZ: "stepUVZ (wall_scene d) (233, 250, 0) = (467 / 1024, - 11 / 1024, 1)"
  using wall_SceneDepth[of d] unfolding wall_scene_def
  by (simp add: example_stepUVZ example_ScreenPosition example_ScreenUV)

lemma wall_sampleUVZ:
  "sampleUVZ (wall_scene d) (233, 250, 0) s = (467 / 1024 + 467 / 1024 * s, 501 / 1024 - 11 / 1024 * s, 1 + s)"
  by (simp add: sampleUVZ_def wall_startUVZ wall_stepUVZ)

lemma wall_sampleDepth:
  "sampleDepth (wall_scene d) (233, 250, 0) s = (if 467 / 1024 + 467 / 1024 * s \<le> 467 / 1024 then 1 else 1 / d)"
  by (simp add: sampleDepth_def sampleDepthWorld_def wall_sampleUVZ)
     (simp add: wall_scene_def example_fields two_levels_def)

lemma wall_depthDiff0: "depthDiff (wall_scene d) (233, 250, 0) (1 / 64) = 65 / 64 - 1 / d"
  by (simp add: depthDiff_def wall_sampleUVZ wall_sampleDepth)

lemma backface_SceneDepth: "SceneDepth backface_scene (3, 5, 0) = 1"
  by (simp add: SceneDepth_def GBuffer_def backface_scene_def example_ScreenUV example_fields two_levels_def)

lemma backface_NdotL: "NdotL backface_scene (3, 5, 0) = - 1"
  by (simp add: NdotL_def N_def LightDirection_def GBuffer_def backface_scene_def example_ScreenUV example_fields two_levels_def)

lemma wall_hit:
  "hit_on_screen (wall_scene (128 / 131)) (233, 250, 0) 0"
  by (simp add: hit_on_screen_def wall_sampleTime Hit_def wall_CompareTolerance wall_depthDiff0
      selfOcclusion_def wall_startUVZ wall_sampleDepth wall_sampleUVZ all_inside_def)

lemma wall_no_hit:
  "\<not> hit_on_screen (wall_scene (128 / 129)) (233, 250, 0) k"
proof -
  have "0 < depthDiff (wall_scene (128 / 129)) (233, 250, 0)
      (sampleTime_at (wall_scene (128 / 129)) (233, 250, 0) k)"
    by (simp add: depthDiff_def wall_sampleUVZ wall_sampleDepth wall_sampleTime_at add_pos_nonneg)
  then show ?thesis
    by (simp add: hit_on_screen_def Hit_def abs_less_iff)
qed

lemma edge_SceneDepth: "SceneDepth edge_scene (510, 250, 0) = 1"
  by (simp add: SceneDepth_def GBuffer_def edge_scene_def example_ScreenUV example_fields two_levels_def)

lemma edge_sampleTime: "sampleTime_init edge_scene (510, 250, 0) = 1 / 64"
  by (simp add: edge_scene_def example_sampleTime_init)

lemma edge_CompareTolerance: "CompareTolerance edge_scene (510, 250, 0) = 1 / 64"
  using edge_SceneDepth unfolding edge_scene_def by (rule example_CompareTolerance)

lemma edge_startUVZ: "startUVZ edge_scene (510, 250, 0) = (1021 / 1024, 501 / 1024, 1)"
  using edge_SceneDepth unfolding edge_scene_def
  by (simp add: example_startUVZ example_ScreenPosition example_ScreenUV)

lemma edge_sampleUVZ:
  "sampleUVZ edge_scene (510, 250, 0) (1 / 64) = (66365 / 65536, 32053 / 65536, 65 / 64)"
  using edge_SceneDepth unfolding edge_scene_def
  by (simp add: sampleUVZ_def example_startUVZ example_stepUVZ example_ScreenPosition example_ScreenUV)

lemma edge_sampleDepth: "sampleDepth edge_scene (510, 250, 0) (1 / 64) = 131 / 128"
  by (simp add: sampleDepth_def sampleDepthWorld_def edge_sampleUVZ)
     (simp add: edge_scene_def example_fields two_levels_def)

lemma edge_Hit: "Hit edge_scene (510, 250, 0) (1 / 64)"
  by (simp add: Hit_def depthDiff_def selfOcclusion_def edge_sampleUVZ edge_sampleDepth
        edge_CompareTolerance edge_startUVZ)

lemma floor_SceneDepth: "SceneDepth floor_scene (233, 250, 0) = 1"
  by (simp add: SceneDepth_def GBuffer_def floor_scene_def example_ScreenUV example_fields two_levels_def)

lemma floor_NdotL: "NdotL floor_scene (233, 250, 0) = 1 / 10"
  by (simp add: NdotL_def N_def LightDirection_def GBuffer_def floor_scene_def example_ScreenUV
        example_fields two_levels_def)

lemma floor_sampleTime: "sampleTime_init floor_scene (233, 250, 0) = 1 / 64"
  by (simp add: floor_scene_def example_sampleTime_init)

lemma floor_CompareTolerance: "CompareTolerance floor_scene (233, 250, 0) = 1 / 64"
  using floor_SceneDepth unfolding floor_scene_def by (rule example_CompareTolerance)

lemma floor_startUVZ: "startUVZ floor_scene (233, 250, 0) = (467 / 1024, 501 / 1024, 1)"
  using floor_SceneDepth unfolding floor_scene_def
  by (simp add: example_startUVZ example_ScreenPosition example_ScreenUV)

lemma floor_sampleUVZ:
  "sampleUVZ floor_scene (233, 250, 0) (1 / 64) = (90221 / 196608, 96203 / 196608, 191 / 192)"
  using floor_SceneDepth unfolding floor_scene_def
  by (simp add: sampleUVZ_def example_startUVZ example_stepUVZ example_ScreenPosition example_ScreenUV)

lemma floor_sampleDepth: "sampleDepth floor_scene (233, 250, 0) s = 1"
  by (simp add: sampleDepth_def sampleDepthWorld_def floor_scene_def example_fields two_levels_def)

lemma wall_samplePixelInt:
  "samplePixelInt (wall_scene d) (233, 250, 0) (1 / 64) = (236, 249)"
  by (simp add: samplePixelInt_def samplePixel_def wall_sampleUVZ float_to_uint_def)
     (simp add: wall_scene_def example_fields example_view_def)

lemma wall_Main_CS:
  "Main_CS (wall_scene (128 / 131)) gid (233, 250, 0) gtid S =
     S\<lparr>RWShadowFactors := (RWShadowFactors S)((233, 250) := (0, 1)),
       testFactors := (testFactors S)((233, 250) := (1, 0), (236, 249) := (1, 0))\<rparr>"
proof -
  have hit: "Hit (wall_scene (128 / 131)) (233, 250, 0) (1 / 64)"
    and inside: "all_inside (xy3 (sampleUVZ (wall_scene (128 / 131)) (233, 250, 0) (1 / 64)))"
    using wall_hit by (simp_all add: hit_on_screen_def wall_sampleTime)
  have dbg: "debug_trail (wall_scene (128 / 131)) (233, 250, 0) (1 / 64) T =
      T\<lparr>testFactors := (testFactors T)((233, 250) := (1, 0), (236, 249) := (1, 0))\<rparr>" for T
    using inside by (simp add: debug_trail_def Let_def wall_samplePixelInt)
  show ?thesis
    unfolding Main_CS_def Let_def
    by (subst march.simps)
       (simp add: wall_NdotL wall_SceneDepth wall_sampleTime NumSteps_def
          loop_body_Return[OF hit inside, unfolded NumSteps_def] dbg)
qed

lemma wall_NdotL_any: "NdotL (wall_scene d) t = 1 / 2"
  by (simp add: NdotL_def N_def LightDirection_def GBuffer_def wall_scene_def example_fields two_levels_def)

lemma wall_step_runs: "step_runs (wall_scene (128 / 131)) (233, 250, 0) k \<longleftrightarrow> k = 0"
proof
  assume r: "step_runs (wall_scene (128 / 131)) (233, 250, 0) k"
  show "k = 0"
  proof (rule ccontr)
    assume "k \<noteq> 0"
    then have "0 < k" by simp
    then show False using r wall_hit by (auto simp: step_runs_def)
  qed
next
  assume "k = 0"
  then show "step_runs (wall_scene (128 / 131)) (233, 250, 0) k"
    by (simp add: step_runs_def NumSteps_def)
qed

lemma wall_PositionTranslatedWorld:
  "PositionTranslatedWorld (wall_scene d) (233, 250, 0) = (- 45 / 512, 11 / 512, 1, 1)"
  by (simp add: PositionTranslatedWorld_def wall_SceneDepth)
     (simp add: wall_scene_def example_ScreenPosition example_ScreenUV example_fields example_view_def)

lemma wall_RayLength: "RayLength (wall_scene d) (233, 250, 0) = 1"
  by (simp add: RayLength_def wall_SceneDepth contactShadowLength_def)
     (simp add: wall_scene_def example_fields)

lemma wall_TranslatedWorldToClip:
  "TranslatedWorldToClip (View (wall_scene d)) = ((1, 0, 0, 0), (0, 1, 0, 0), (0, 0, 0, 1), (0, 0, 1, 0))"
  by (simp add: wall_scene_def example_fields example_view_def)

subsection \<open>The hit test\<close>

text \<open>
  Claim C1, as the code has it. At every step \<open>i\<close> of the march, \<open>Hit\<close> holds exactly
  when the signed difference \<open>depthDiff\<close> between the ray's depth and the depth sampled
  from the buffer lies strictly between \<open>- 2 * CompareTolerance\<close> and 0 and the sample
  is not a self-intersection. The band is one-sided: twice the tolerance wide, and
  entirely below zero.
\<close>

theorem C1_hit_band:
  "Hit E tid (sampleTime_at E tid i) \<longleftrightarrow>
     (- 2 * CompareTolerance E tid < depthDiff E tid (sampleTime_at E tid i)
      \<and> depthDiff E tid (sampleTime_at E tid i) < 0
      \<and> \<not> selfOcclusion E tid (sampleTime_at E tid i))"
  unfolding Hit_def by (auto simp: abs_less_iff)

text \<open>
  Claim C1 as stated fails: the band is not symmetric about zero. In \<open>wall_scene\<close>, at
  step 0 of the thread (233, 250), the tolerance is 1/64. With the wall at depth 128/129
  the difference is \<open>+1/128\<close>, within the tolerance of zero and not a self-intersection,
  and there is no hit; with the wall at depth 128/131 the difference is \<open>-1/128\<close> and
  there is a hit.
\<close>

theorem C1_band_not_symmetric:
  "\<bar>depthDiff (wall_scene (128 / 129)) (233, 250, 0) (sampleTime_at (wall_scene (128 / 129)) (233, 250, 0) 0)\<bar>
      < CompareTolerance (wall_scene (128 / 129)) (233, 250, 0)
   \<and> \<not> selfOcclusion (wall_scene (128 / 129)) (233, 250, 0) (sampleTime_at (wall_scene (128 / 129)) (233, 250, 0) 0)
   \<and> \<not> Hit (wall_scene (128 / 129)) (233, 250, 0) (sampleTime_at (wall_scene (128 / 129)) (233, 250, 0) 0)
   \<and> depthDiff (wall_scene (128 / 129)) (233, 250, 0) (sampleTime_at (wall_scene (128 / 129)) (233, 250, 0) 0) = 1 / 128
   \<and> depthDiff (wall_scene (128 / 131)) (233, 250, 0) (sampleTime_at (wall_scene (128 / 131)) (233, 250, 0) 0) = - 1 / 128
   \<and> \<not> selfOcclusion (wall_scene (128 / 131)) (233, 250, 0) (sampleTime_at (wall_scene (128 / 131)) (233, 250, 0) 0)
   \<and> Hit (wall_scene (128 / 131)) (233, 250, 0) (sampleTime_at (wall_scene (128 / 131)) (233, 250, 0) 0)"
  by (simp add: wall_sampleTime wall_CompareTolerance wall_depthDiff0 Hit_def selfOcclusion_def
        wall_startUVZ wall_sampleDepth)

subsection \<open>Backface rejection\<close>

text \<open>
  Claim C2. When the normal read at the pixel satisfies \<open>dot(N, LightDirection) \<le> 0\<close>,
  \<open>Main_CS\<close> leaves \<open>(0, SceneDepth)\<close> in the pixel's slot of \<open>RWShadowFactors\<close>,
  changes nothing else, and never enters the loop: the result is the same for every
  depth/normal buffer that agrees with the given one at the pixel's own \<open>ScreenUV\<close>.
\<close>

theorem C2_backface:
  assumes "NdotL E tid \<le> 0"
  shows "Main_CS E gid tid gtid S =
           S\<lparr>RWShadowFactors := (RWShadowFactors S)(xy3 tid := (0, SceneDepth E tid))\<rparr>
         \<and> (\<forall>G. G (ScreenUV E tid) = GetGBufferDataFromSceneTextures E (ScreenUV E tid) \<longrightarrow>
               Main_CS (E\<lparr>GetGBufferDataFromSceneTextures := G\<rparr>) gid tid gtid S
                 = Main_CS E gid tid gtid S)"
proof -
  have own: "Main_CS E' gid tid gtid S =
      S\<lparr>RWShadowFactors := (RWShadowFactors S)(xy3 tid := (0, SceneDepth E' tid))\<rparr>"
    if "NdotL E' tid \<le> 0" for E'
    using that by (simp add: Main_CS_def Let_def)
  have same: "NdotL (E\<lparr>GetGBufferDataFromSceneTextures := G\<rparr>) tid = NdotL E tid
      \<and> SceneDepth (E\<lparr>GetGBufferDataFromSceneTextures := G\<rparr>) tid = SceneDepth E tid"
    if "G (ScreenUV E tid) = GetGBufferDataFromSceneTextures E (ScreenUV E tid)" for G
    using that by (simp add: NdotL_def N_def SceneDepth_def GBuffer_def ScreenUV_def LightDirection_def)
  show ?thesis
    using own[OF assms] own same assms by simp
qed

text \<open>
  An instance: the thread (3, 5) of \<open>backface_scene\<close>, and the same scene with the buffer
  replaced everywhere but at the pixel itself.
\<close>

theorem C2_backface_witness:
  "NdotL backface_scene (3, 5, 0) \<le> 0
   \<and> Main_CS backface_scene (0, 0, 0) (3, 5, 0) (3, 5, 0) cleared =
       cleared\<lparr>RWShadowFactors := (RWShadowFactors cleared)((3, 5) := (0, 1))\<rparr>
   \<and> Main_CS (backface_scene\<lparr>GetGBufferDataFromSceneTextures :=
         (\<lambda>uv. if uv = ScreenUV backface_scene (3, 5, 0)
               then GetGBufferDataFromSceneTextures backface_scene uv
               else \<lparr>WorldNormal = (1, 0, 0), Depth = 77\<rparr>)\<rparr>) (0, 0, 0) (3, 5, 0) (3, 5, 0) cleared
       = Main_CS backface_scene (0, 0, 0) (3, 5, 0) (3, 5, 0) cleared"
proof -
  have h: "NdotL backface_scene (3, 5, 0) \<le> 0" by (simp add: backface_NdotL)
  show ?thesis
    using h C2_backface[OF h, of "(0, 0, 0)" "(3, 5, 0)" cleared]
    by (simp add: backface_SceneDepth)
qed

subsection \<open>The value left in the output surface\<close>

text \<open>
  Claim C3. Whatever the surfaces held before, and whatever the early writes of
  \<open>(test.z, test.w)\<close> and \<open>(0, 1)\<close> stored, the value \<open>Main_CS\<close> leaves in the pixel's own
  slot of \<open>RWShadowFactors\<close> is \<open>(0, SceneDepth)\<close> when the normal faces away from the
  light or some step below \<open>NumSteps\<close> hits on screen, and \<open>(1, SceneDepth)\<close> when all
  \<open>NumSteps\<close> steps pass without such a hit.
\<close>

theorem C3_final_value:
  "RWShadowFactors (Main_CS E gid tid gtid S) (xy3 tid) =
     (if NdotL E tid \<le> 0 \<or> (\<exists>k<NumSteps. hit_on_screen E tid k)
      then (0, SceneDepth E tid)
      else (1, SceneDepth E tid))
   \<and> (fst (RWShadowFactors (Main_CS E gid tid gtid S) (xy3 tid)) = 0
        \<or> fst (RWShadowFactors (Main_CS E gid tid gtid S) (xy3 tid)) = 1)
   \<and> snd (RWShadowFactors (Main_CS E gid tid gtid S) (xy3 tid)) = SceneDepth E tid"
  by (simp add: Main_CS_RW)

text \<open>
  Both outcomes occur: the thread (233, 250) is shadowed by the wall at depth 128/131 (a
  hit at step 0) and unshadowed with the wall at depth 128/129 (no hit in 64 steps).
\<close>

theorem C3_final_value_witness:
  "RWShadowFactors (Main_CS (wall_scene (128 / 131)) (29, 31, 0) (233, 250, 0) (1, 2, 0) cleared) (233, 250) = (0, 1)
   \<and> RWShadowFactors (Main_CS (wall_scene (128 / 129)) (29, 31, 0) (233, 250, 0) (1, 2, 0) cleared) (233, 250) = (1, 1)"
proof -
  have "\<exists>k<NumSteps. hit_on_screen (wall_scene (128 / 131)) (233, 250, 0) k"
    using wall_hit by (intro exI[of _ 0]) (simp add: NumSteps_def)
  then show ?thesis
    using C3_final_value[of "wall_scene (128 / 131)" "(29, 31, 0)" "(233, 250, 0)" "(1, 2, 0)" cleared]
      C3_final_value[of "wall_scene (128 / 129)" "(29, 31, 0)" "(233, 250, 0)" "(1, 2, 0)" cleared]
    by (simp add: wall_NdotL wall_SceneDepth wall_no_hit)
qed


subsection \<open>Samples off the screen\<close>

text \<open>
  Claim C4. At a step whose sample UV is not strictly inside (0, 1) on both axes, the
  loop body goes on to the next step and leaves \<open>RWShadowFactors\<close> as it was, whatever
  the depth comparison says; a loop body that returns (the only place where the loop
  writes the shadowed result) has its sample strictly inside the screen; and a pixel that
  faces the light and ends shadowed has a step below \<open>NumSteps\<close> that hits with its
  sample strictly inside the screen.
\<close>

theorem C4_offscreen_no_hit:
  "(\<not> all_inside (xy3 (sampleUVZ E tid (sampleTime_at E tid i))) \<longrightarrow>
      loop_body E tid (sampleTime_at E tid i) S =
        Continue (sampleTime_at E tid (Suc i)) (debug_trail E tid (sampleTime_at E tid i) S)
      \<and> RWShadowFactors (debug_trail E tid (sampleTime_at E tid i) S) = RWShadowFactors S)
   \<and> (\<forall>S'. loop_body E tid (sampleTime_at E tid i) S = Return S' \<longrightarrow>
         all_inside (xy3 (sampleUVZ E tid (sampleTime_at E tid i))))
   \<and> (0 < NdotL E tid \<and> RWShadowFactors (Main_CS E gid tid gtid S) (xy3 tid) = (0, SceneDepth E tid) \<longrightarrow>
         (\<exists>k<NumSteps. Hit E tid (sampleTime_at E tid k)
            \<and> all_inside (xy3 (sampleUVZ E tid (sampleTime_at E tid k)))))"
proof (intro conjI impI allI)
  assume out: "\<not> all_inside (xy3 (sampleUVZ E tid (sampleTime_at E tid i)))"
  then show "loop_body E tid (sampleTime_at E tid i) S =
      Continue (sampleTime_at E tid (Suc i)) (debug_trail E tid (sampleTime_at E tid i) S)"
    by (simp add: loop_body_Continue)
  show "RWShadowFactors (debug_trail E tid (sampleTime_at E tid i) S) = RWShadowFactors S"
    by (rule debug_trail_RW)
next
  fix S'
  assume "loop_body E tid (sampleTime_at E tid i) S = Return S'"
  then show "all_inside (xy3 (sampleUVZ E tid (sampleTime_at E tid i)))"
    by (cases "all_inside (xy3 (sampleUVZ E tid (sampleTime_at E tid i)))")
       (simp_all add: loop_body_Continue)
next
  assume a: "0 < NdotL E tid \<and>
     RWShadowFactors (Main_CS E gid tid gtid S) (xy3 tid) = (0, SceneDepth E tid)"
  have "\<exists>k<NumSteps. hit_on_screen E tid k"
  proof (rule ccontr)
    assume "\<not> (\<exists>k<NumSteps. hit_on_screen E tid k)"
    then have "RWShadowFactors (Main_CS E gid tid gtid S) (xy3 tid) = (1, SceneDepth E tid)"
      using a by (simp add: Main_CS_RW)
    then show False using a by simp
  qed
  then show "\<exists>k<NumSteps. Hit E tid (sampleTime_at E tid k)
      \<and> all_inside (xy3 (sampleUVZ E tid (sampleTime_at E tid k)))"
    by (simp add: hit_on_screen_def)
qed

text \<open>
  An instance: at step 0 the ray of the thread (510, 250) of \<open>edge_scene\<close> has left the
  screen on the right, the depth comparison there is a hit, and the loop continues.
\<close>

theorem C4_offscreen_no_hit_witness:
  "\<not> all_inside (xy3 (sampleUVZ edge_scene (510, 250, 0) (sampleTime_at edge_scene (510, 250, 0) 0)))
   \<and> Hit edge_scene (510, 250, 0) (sampleTime_at edge_scene (510, 250, 0) 0)
   \<and> loop_body edge_scene (510, 250, 0) (sampleTime_at edge_scene (510, 250, 0) 0) cleared
       = Continue (1 / 32) cleared"
proof -
  have out: "\<not> all_inside (xy3 (sampleUVZ edge_scene (510, 250, 0) (sampleTime_at edge_scene (510, 250, 0) 0)))"
    by (simp add: edge_sampleTime edge_sampleUVZ all_inside_def)
  have dbg: "debug_trail edge_scene (510, 250, 0) (1 / 64) cleared = cleared"
    by (simp add: debug_trail_def)
  show ?thesis
    using out C4_offscreen_no_hit[of edge_scene "(510, 250, 0)" 0 cleared "(63, 31, 0)"]
    by (simp add: edge_sampleTime edge_Hit dbg NumSteps_def)
qed

subsection \<open>Self-intersection\<close>

text \<open>
  Claim C5. At every step at which the sampled depth, converted to device Z, is within
  \<open>1e-5\<close> of the ray's starting depth \<open>startUVZ.z\<close>, there is no hit: the loop goes on to
  the next step and leaves \<open>RWShadowFactors\<close> as it was. This holds in every environment,
  so for every value the tolerance takes.
\<close>

theorem C5_self_intersection:
  assumes "\<bar>z3 (startUVZ E tid) - sampleDepth E tid (sampleTime_at E tid i)\<bar> < 1 / 100000"
  shows "\<not> Hit E tid (sampleTime_at E tid i)
       \<and> loop_body E tid (sampleTime_at E tid i) S =
           Continue (sampleTime_at E tid (Suc i)) (debug_trail E tid (sampleTime_at E tid i) S)
       \<and> RWShadowFactors (debug_trail E tid (sampleTime_at E tid i) S) = RWShadowFactors S"
proof -
  have "selfOcclusion E tid (sampleTime_at E tid i)"
    using assms by (simp add: selfOcclusion_def)
  then have "\<not> Hit E tid (sampleTime_at E tid i)"
    by (simp add: Hit_def)
  then show ?thesis
    by (simp add: loop_body_Continue debug_trail_RW)
qed

text \<open>
  An instance: the thread (233, 250) of \<open>floor_scene\<close> faces the light; over the
  constant depth buffer its sample of step 0 is on screen and passes the tolerance test,
  and is suppressed as a self-intersection.
\<close>

theorem C5_self_intersection_witness:
  "0 < NdotL floor_scene (233, 250, 0)
   \<and> \<bar>z3 (startUVZ floor_scene (233, 250, 0))
      - sampleDepth floor_scene (233, 250, 0) (sampleTime_at floor_scene (233, 250, 0) 0)\<bar> < 1 / 100000
   \<and> \<bar>depthDiff floor_scene (233, 250, 0) (sampleTime_at floor_scene (233, 250, 0) 0)
        + CompareTolerance floor_scene (233, 250, 0)\<bar> < CompareTolerance floor_scene (233, 250, 0)
   \<and> all_inside (xy3 (sampleUVZ floor_scene (233, 250, 0) (sampleTime_at floor_scene (233, 250, 0) 0)))
   \<and> \<not> Hit floor_scene (233, 250, 0) (sampleTime_at floor_scene (233, 250, 0) 0)
   \<and> RWShadowFactors (debug_trail floor_scene (233, 250, 0)
         (sampleTime_at floor_scene (233, 250, 0) 0) cleared) = RWShadowFactors cleared"
proof -
  have h: "\<bar>z3 (startUVZ floor_scene (233, 250, 0))
      - sampleDepth floor_scene (233, 250, 0) (sampleTime_at floor_scene (233, 250, 0) 0)\<bar> < 1 / 100000"
    by (simp add: floor_startUVZ floor_sampleDepth)
  have band: "\<bar>depthDiff floor_scene (233, 250, 0) (sampleTime_at floor_scene (233, 250, 0) 0)
        + CompareTolerance floor_scene (233, 250, 0)\<bar> < CompareTolerance floor_scene (233, 250, 0)"
    by (simp add: depthDiff_def floor_sampleTime floor_sampleUVZ floor_sampleDepth floor_CompareTolerance)
  have inside: "all_inside (xy3 (sampleUVZ floor_scene (233, 250, 0) (sampleTime_at floor_scene (233, 250, 0) 0)))"
    by (simp add: floor_sampleTime floor_sampleUVZ all_inside_def)
  show ?thesis
    using h band inside C5_self_intersection[OF h, of cleared] by (simp add: floor_NdotL)
qed

subsection \<open>The tolerance\<close>

text \<open>
  Claim C6. \<open>CompareTolerance\<close> is the absolute difference between the screen-space
  depth of the start point displaced by one ray length along the view depth axis
  (\<open>depthScreen.z\<close>) and the screen-space depth of the start point, times
  \<open>1 / NumSteps\<close> with \<open>NumSteps = 64\<close>, times \<open>CompareTorelanceScale = 2\<close>. It does
  not depend on the step: every step compares against this one value.
\<close>

theorem C6_tolerance:
  "CompareTolerance E tid =
     \<bar>z3 (depthScreen E tid) - z3 (startScreen E tid)\<bar> * (1 / real NumSteps) * CompareTorelanceScale
   \<and> NumSteps = 64 \<and> CompareTorelanceScale = 2
   \<and> depthScreen E tid =
       xyz_over_w (add4 (startClip E tid) (mul (0, 0, RayLength E tid, 0) (ViewToClip (View E))))
   \<and> startScreen E tid = xyz_over_w (startClip E tid)
   \<and> (\<forall>i. Hit E tid (sampleTime_at E tid i) \<longleftrightarrow>
         (\<bar>depthDiff E tid (sampleTime_at E tid i) + CompareTolerance E tid\<bar> < CompareTolerance E tid
          \<and> \<not> selfOcclusion E tid (sampleTime_at E tid i)))"
  by (simp add: CompareTolerance_def step_def NumSteps_def CompareTorelanceScale_def
        depthScreen_def depthClip_def startScreen_def Hit_def)


subsection \<open>What an invocation writes\<close>

text \<open>
  Claim C7, as the code has it. The depth/normal buffer is an input only: \<open>Main_CS\<close>
  returns the two surfaces and nothing else. In \<open>RWShadowFactors\<close> an invocation changes
  no slot but its own; the value it leaves there does not depend on what the surfaces held
  before; and two invocations for different pixels leave the same \<open>RWShadowFactors\<close> in
  either order. The debug surface \<open>testFactors\<close> is left as it was by a thread whose
  normal faces away from the light; a thread other than (233, 250) that faces the light
  writes \<open>(0, 0)\<close> to its own slot and nothing else; and the thread (233, 250), when it
  faces the light, leaves \<open>(1, 0)\<close> in its own slot and in the slot \<open>samplePixelInt\<close> of
  every iteration that is run with its sample on screen, and no other slot changed.
\<close>

theorem C7_own_slot_only:
  "(\<forall>q. q \<noteq> xy3 tid \<longrightarrow> RWShadowFactors (Main_CS E gid tid gtid S) q = RWShadowFactors S q)
   \<and> RWShadowFactors (Main_CS E gid tid gtid S) (xy3 tid)
       = RWShadowFactors (Main_CS E gid tid gtid S') (xy3 tid)
   \<and> (xy3 tid \<noteq> xy3 tid' \<longrightarrow>
        RWShadowFactors (Main_CS E gid' tid' gtid' (Main_CS E gid tid gtid S))
          = RWShadowFactors (Main_CS E gid tid gtid (Main_CS E gid' tid' gtid' S)))
   \<and> (NdotL E tid \<le> 0 \<longrightarrow> testFactors (Main_CS E gid tid gtid S) = testFactors S)
   \<and> (xy3 tid \<noteq> (233, 250) \<and> 0 < NdotL E tid \<longrightarrow>
        testFactors (Main_CS E gid tid gtid S) = (testFactors S)(xy3 tid := (0, 0)))
   \<and> (xy3 tid = (233, 250) \<and> 0 < NdotL E tid \<longrightarrow>
        (\<forall>q. testFactors (Main_CS E gid tid gtid S) q =
           (if q = xy3 tid
               \<or> (\<exists>k. step_runs E tid k
                     \<and> all_inside (xy3 (sampleUVZ E tid (sampleTime_at E tid k)))
                     \<and> q = samplePixelInt E tid (sampleTime_at E tid k))
            then (1, 0) else testFactors S q)))"
proof (intro conjI impI allI)
  fix q assume "q \<noteq> xy3 tid"
  then show "RWShadowFactors (Main_CS E gid tid gtid S) q = RWShadowFactors S q"
    by (simp add: Main_CS_RW)
next
  show "RWShadowFactors (Main_CS E gid tid gtid S) (xy3 tid)
       = RWShadowFactors (Main_CS E gid tid gtid S') (xy3 tid)"
    by (simp add: Main_CS_RW)
next
  assume "xy3 tid \<noteq> xy3 tid'"
  then show "RWShadowFactors (Main_CS E gid' tid' gtid' (Main_CS E gid tid gtid S))
          = RWShadowFactors (Main_CS E gid tid gtid (Main_CS E gid' tid' gtid' S))"
    by (simp only: Main_CS_RW) (rule fun_upd_twist)
next
  assume "NdotL E tid \<le> 0"
  then show "testFactors (Main_CS E gid tid gtid S) = testFactors S"
    by (rule Main_CS_backface_testFactors)
next
  assume "xy3 tid \<noteq> (233, 250) \<and> 0 < NdotL E tid"
  then show "testFactors (Main_CS E gid tid gtid S) = (testFactors S)(xy3 tid := (0, 0))"
    by (simp add: Main_CS_testFactors)
next
  fix q
  assume "xy3 tid = (233, 250) \<and> 0 < NdotL E tid"
  then show "testFactors (Main_CS E gid tid gtid S) q =
           (if q = xy3 tid
               \<or> (\<exists>k. step_runs E tid k
                     \<and> all_inside (xy3 (sampleUVZ E tid (sampleTime_at E tid k)))
                     \<and> q = samplePixelInt E tid (sampleTime_at E tid k))
            then (1, 0) else testFactors S q)"
    by (simp add: Main_CS_trail)
qed

text \<open>
  Claim C7 as stated fails for the thread (233, 250), which records its sample trail in
  \<open>testFactors\<close> at the sample's pixel: in \<open>wall_scene\<close> it writes the slot (236, 249).
\<close>

theorem C7_debug_trail_writes_elsewhere:
  "testFactors (Main_CS (wall_scene (128 / 131)) (29, 31, 0) (233, 250, 0) (1, 2, 0) cleared) (236, 249)
     = (1, 0)
   \<and> testFactors cleared (236, 249) = (0, 0)
   \<and> (236, 249) \<noteq> xy3 (233, 250, 0 :: uint)"
  by (simp add: wall_Main_CS) (simp add: cleared_def)

text \<open>
  Instances, over surfaces that hold (7, 7) everywhere. In \<open>RWShadowFactors\<close> the slot
  (236, 249) is untouched by the thread (233, 250), and the threads (233, 250) and (3, 5)
  commute. In \<open>testFactors\<close> the thread (3, 5) writes nothing in \<open>backface_scene\<close>, and in
  \<open>wall_scene\<close> writes \<open>(0, 0)\<close> to its own slot and leaves the slot (233, 250) alone; the
  thread (233, 250) of \<open>wall_scene\<close>, which returns in its first iteration, marks its own
  slot and the sample pixel (236, 249) and leaves the slot (3, 5) alone.
\<close>

theorem C7_own_slot_only_witness:
  "RWShadowFactors (Main_CS (wall_scene (128 / 131)) (29, 31, 0) (233, 250, 0) (1, 2, 0) stale) (236, 249)
     = RWShadowFactors stale (236, 249)
   \<and> RWShadowFactors (Main_CS (wall_scene (128 / 131)) (0, 0, 0) (3, 5, 0) (3, 5, 0)
        (Main_CS (wall_scene (128 / 131)) (29, 31, 0) (233, 250, 0) (1, 2, 0) stale))
     = RWShadowFactors (Main_CS (wall_scene (128 / 131)) (29, 31, 0) (233, 250, 0) (1, 2, 0)
        (Main_CS (wall_scene (128 / 131)) (0, 0, 0) (3, 5, 0) (3, 5, 0) stale))
   \<and> testFactors (Main_CS backface_scene (0, 0, 0) (3, 5, 0) (3, 5, 0) stale) (3, 5) = (7, 7)
   \<and> testFactors (Main_CS (wall_scene (128 / 131)) (0, 0, 0) (3, 5, 0) (3, 5, 0) stale) (3, 5) = (0, 0)
   \<and> testFactors (Main_CS (wall_scene (128 / 131)) (0, 0, 0) (3, 5, 0) (3, 5, 0) stale) (233, 250) = (7, 7)
   \<and> testFactors (Main_CS (wall_scene (128 / 131)) (29, 31, 0) (233, 250, 0) (1, 2, 0) stale) (233, 250) = (1, 0)
   \<and> testFactors (Main_CS (wall_scene (128 / 131)) (29, 31, 0) (233, 250, 0) (1, 2, 0) stale) (236, 249) = (1, 0)
   \<and> testFactors (Main_CS (wall_scene (128 / 131)) (29, 31, 0) (233, 250, 0) (1, 2, 0) stale) (3, 5) = (7, 7)"
proof -
  have inside: "all_inside (xy3 (sampleUVZ (wall_scene (128 / 131)) (233, 250, 0) (1 / 64)))"
    using wall_hit by (simp add: hit_on_screen_def wall_sampleTime)
  have tf: "testFactors stale q = (7, 7)" for q
    by (simp add: stale_def)
  show ?thesis
    using C7_own_slot_only[of "(233, 250, 0)" "wall_scene (128 / 131)" "(29, 31, 0)" "(1, 2, 0)" stale stale
          "(3, 5, 0)" "(0, 0, 0)" "(3, 5, 0)"]
        C7_own_slot_only[of "(3, 5, 0)" backface_scene "(0, 0, 0)" "(3, 5, 0)" stale stale
          "(3, 5, 0)" "(0, 0, 0)" "(3, 5, 0)"]
        C7_own_slot_only[of "(3, 5, 0)" "wall_scene (128 / 131)" "(0, 0, 0)" "(3, 5, 0)" stale stale
          "(3, 5, 0)" "(0, 0, 0)" "(3, 5, 0)"]
    by (simp add: wall_NdotL_any backface_NdotL wall_step_runs wall_sampleTime wall_samplePixelInt
          inside tf)
qed

subsection \<open>Termination\<close>

text \<open>
  Claim C9. \<open>Main_CS\<close> has one loop, \<open>march\<close>, whose termination is proved above with
  the measure \<open>NumSteps - i\<close>; with it every function of the shader is total. Entered at
  \<open>i = 0\<close> the loop is left with \<open>i \<le> NumSteps = 64\<close>, so the body has run at most 64
  times: it is left at the first step that hits on screen, and at \<open>NumSteps\<close> when there
  is none. Every run of the body either returns or continues with \<open>sampleTime\<close> advanced
  by \<open>1 / NumSteps\<close>.
\<close>

theorem C9_bounded_march:
  "fst (march E tid 0 (sampleTime_init E tid) S) \<le> NumSteps
   \<and> NumSteps = 64
   \<and> (\<forall>k < fst (march E tid 0 (sampleTime_init E tid) S). \<not> hit_on_screen E tid k)
   \<and> (fst (march E tid 0 (sampleTime_init E tid) S) < NumSteps \<longrightarrow>
        hit_on_screen E tid (fst (march E tid 0 (sampleTime_init E tid) S)))
   \<and> (\<forall>t S. (\<exists>S'. loop_body E tid t S = Return S')
            \<or> (\<exists>S'. loop_body E tid t S = Continue (t + 1 / real NumSteps) S'))"
proof -
  have bound: "fst (march E tid 0 (sampleTime_init E tid) S) \<le> NumSteps"
    by (rule march_fst) simp
  have n: "NumSteps = 64" by (simp add: NumSteps_def)
  have before: "\<forall>k < fst (march E tid 0 (sampleTime_init E tid) S). \<not> hit_on_screen E tid k"
    using march_exit[of 0 E tid S] by simp
  have at_exit: "fst (march E tid 0 (sampleTime_init E tid) S) < NumSteps \<longrightarrow>
        hit_on_screen E tid (fst (march E tid 0 (sampleTime_init E tid) S))"
    using march_exit[of 0 E tid S] by simp
  have body: "\<forall>t S. (\<exists>S'. loop_body E tid t S = Return S')
      \<or> (\<exists>S'. loop_body E tid t S = Continue (t + 1 / real NumSteps) S')"
  proof (intro allI)
    fix t S
    show "(\<exists>S'. loop_body E tid t S = Return S')
        \<or> (\<exists>S'. loop_body E tid t S = Continue (t + 1 / real NumSteps) S')"
      by (cases "Hit E tid t \<and> all_inside (xy3 (sampleUVZ E tid t))")
         (simp_all add: loop_body_Return loop_body_Continue)
  qed
  show ?thesis
    by (intro conjI bound n before at_exit body)
qed

text \<open>
  Instances: with the wall at depth 128/131 the loop is left in its first iteration, with
  the wall at depth 128/129 after all 64.
\<close>

theorem C9_bounded_march_witness:
  "fst (march (wall_scene (128 / 131)) (233, 250, 0) 0
          (sampleTime_init (wall_scene (128 / 131)) (233, 250, 0)) cleared) = 0
   \<and> fst (march (wall_scene (128 / 129)) (233, 250, 0) 0
          (sampleTime_init (wall_scene (128 / 129)) (233, 250, 0)) cleared) = 64"
proof -
  have "\<not> 0 < fst (march (wall_scene (128 / 131)) (233, 250, 0) 0
          (sampleTime_init (wall_scene (128 / 131)) (233, 250, 0)) cleared)"
    using C9_bounded_march[of "wall_scene (128 / 131)" "(233, 250, 0)" cleared] wall_hit
    by blast
  moreover have "\<not> fst (march (wall_scene (128 / 129)) (233, 250, 0) 0
          (sampleTime_init (wall_scene (128 / 129)) (233, 250, 0)) cleared) < 64"
    using C9_bounded_march[of "wall_scene (128 / 129)" "(233, 250, 0)" cleared] wall_no_hit
    by auto
  moreover have "fst (march (wall_scene (128 / 129)) (233, 250, 0) 0
          (sampleTime_init (wall_scene (128 / 129)) (233, 250, 0)) cleared) \<le> 64"
    using C9_bounded_march[of "wall_scene (128 / 129)" "(233, 250, 0)" cleared]
    by simp
  ultimately show ?thesis by simp
qed


subsection \<open>The dispatch\<close>

text \<open>
  Claim C8. For every allocated shadow the host computes the group counts as the width
  and the height of the scissor rectangle divided by 8, rounded up; when one of them is
  zero it returns \<open>false\<close> at once, with no pass added, and otherwise adds the pass with
  these counts. So no pass that \<open>RenderScreenSpaceShadows\<close> adds has a group count of
  zero in x or y, and a view of width or height zero makes the function return \<open>false\<close>
  at its first allocated shadow.
\<close>

theorem C8_no_empty_dispatch:
  "dispatch_shadow V Sh passes =
     (if DivideAndRoundUp (Width (ViewRect V)) 8 = 0 \<or> DivideAndRoundUp (Height (ViewRect V)) 8 = 0
      then Returned False passes
      else Running (passes @
             [\<lparr>PassLightPositionOrDirection = host_LightPositionOrDirection (Proxy Sh),
               GroupCount = (DivideAndRoundUp (Width (ViewRect V)) 8,
                             DivideAndRoundUp (Height (ViewRect V)) 8, 1)\<rparr>]))
   \<and> (\<exists>added. snd (RenderScreenSpaceShadows Views Shadows passes) = passes @ added
         \<and> (\<forall>q\<in>set added. x3 (GroupCount q) \<noteq> 0 \<and> y3 (GroupCount q) \<noteq> 0))
   \<and> ((Width (ViewRect V) = 0 \<or> Height (ViewRect V) = 0)
        \<and> (\<exists>p\<in>set Shadows. \<not> bRayTracedDistanceField p \<and> bAllocated p) \<longrightarrow>
        RenderScreenSpaceShadows (V # Views) Shadows passes = (False, passes))
   \<and> (0 \<le> sint w \<and> sint w \<le> 2147483640 \<longrightarrow>
        sint (DivideAndRoundUp w 8) = (sint w + 7) div 8)"
proof (intro conjI impI)
  show "dispatch_shadow V Sh passes =
     (if DivideAndRoundUp (Width (ViewRect V)) 8 = 0 \<or> DivideAndRoundUp (Height (ViewRect V)) 8 = 0
      then Returned False passes
      else Running (passes @
             [\<lparr>PassLightPositionOrDirection = host_LightPositionOrDirection (Proxy Sh),
               GroupCount = (DivideAndRoundUp (Width (ViewRect V)) 8,
                             DivideAndRoundUp (Height (ViewRect V)) 8, 1)\<rparr>]))"
    by (rule dispatch_shadow_eq)
next
  show "\<exists>added. snd (RenderScreenSpaceShadows Views Shadows passes) = passes @ added
         \<and> (\<forall>q\<in>set added. x3 (GroupCount q) \<noteq> 0 \<and> y3 (GroupCount q) \<noteq> 0)"
    using RenderScreenSpaceShadows_added[of Views Shadows passes]
    by (simp add: nonzero_groups_def)
next
  assume a: "(Width (ViewRect V) = 0 \<or> Height (ViewRect V) = 0)
        \<and> (\<exists>p\<in>set Shadows. \<not> bRayTracedDistanceField p \<and> bAllocated p)"
  let ?ns = "filter (\<lambda>p. \<not> bRayTracedDistanceField p) Shadows"
  have zero: "DivideAndRoundUp (Width (ViewRect V)) 8 = 0 \<or> DivideAndRoundUp (Height (ViewRect V)) 8 = 0"
    using a DivideAndRoundUp_0 by auto
  have alloc: "\<exists>p\<in>set ?ns. bAllocated p"
    using a by auto
  then have "?ns \<noteq> []" by (metis empty_iff list.set(1))
  then have "length ?ns > 0" by simp
  then show "RenderScreenSpaceShadows (V # Views) Shadows passes = (False, passes)"
    using shadow_loop_zero[OF zero alloc, of passes]
    by (simp add: RenderScreenSpaceShadows_def)
next
  assume "0 \<le> sint w \<and> sint w \<le> 2147483640"
  then show "sint (DivideAndRoundUp w 8) = (sint w + 7) div 8"
    by (simp add: DivideAndRoundUp_8)
qed

text \<open>
  Instances: with the view of width zero first, nothing is dispatched and the result is
  \<open>false\<close>; the view of 20 by 9 pixels is dispatched with 3 by 2 groups.
\<close>

theorem C8_no_empty_dispatch_witness:
  "Width (ViewRect view_0x9) = 0
   \<and> RenderScreenSpaceShadows [view_0x9, view_20x9] [point_shadow] [] = (False, [])
   \<and> dispatch_shadow view_20x9 point_shadow [] =
       Running [\<lparr>PassLightPositionOrDirection = (300, 400, 500, 1), GroupCount = (3, 2, 1)\<rparr>]
   \<and> sint (DivideAndRoundUp 20 8) = 3"
proof -
  have d20: "DivideAndRoundUp 20 8 = 3" and d9: "DivideAndRoundUp 9 8 = 2"
    by (simp_all add: DivideAndRoundUp_def signed_divide_int_def)
  have w0: "Width (ViewRect view_0x9) = 0" and w20: "Width (ViewRect view_20x9) = 20"
    and h9: "Height (ViewRect view_20x9) = 9"
    by (simp_all add: Width_def Height_def view_0x9_def view_20x9_def)
  have sh: "\<exists>p\<in>set [point_shadow]. \<not> bRayTracedDistanceField p \<and> bAllocated p"
    by (simp add: point_shadow_def)
  have lp: "host_LightPositionOrDirection (Proxy point_shadow) = (300, 400, 500, 1)"
    by (simp add: host_LightPositionOrDirection_def point_shadow_def point_light_def)
  show ?thesis
    using C8_no_empty_dispatch[of view_0x9 point_shadow "[]" "[view_20x9]" "[point_shadow]" 20]
      C8_no_empty_dispatch[of view_20x9 point_shadow "[]" "[]" "[]" 20]
      w0 sh
    by (simp add: w20 h9 d20 d9 lp)
qed


subsection \<open>The light direction\<close>

text \<open>
  Claim C10. \<open>LightDirection\<close> is the negation of the first three components of
  \<open>LightPositionOrDirection\<close>, and the march follows it: the clip-space direction
  \<open>dirClip\<close> is the image of \<open>RayLength\<close> times that negation, the end point of the ray
  is the image of the shading point displaced by it, every sample of the march lies on the
  screen-space segment from the start to that end point, and the value left in the pixel's
  slot is decided by the hit test at these samples. The result of \<open>Main_CS\<close> does not
  depend on the fourth component. For a light that is not directional the host passes
  \<open>(position, 1)\<close>, so the ray runs from the shading point towards the shading point
  minus \<open>RayLength\<close> times the position of the light, not towards the light; the pass the
  host adds carries this parameter.
\<close>

theorem C10_light_direction:
  "LightDirection E =
     (- x4 (LightPositionOrDirection E), - y4 (LightPositionOrDirection E),
      - z4 (LightPositionOrDirection E))
   \<and> dirClip E tid =
       mul (- x4 (LightPositionOrDirection E) * RayLength E tid,
            - y4 (LightPositionOrDirection E) * RayLength E tid,
            - z4 (LightPositionOrDirection E) * RayLength E tid, 0)
           (TranslatedWorldToClip (View E))
   \<and> endClip E tid =
       mul (x4 (PositionTranslatedWorld E tid) - x4 (LightPositionOrDirection E) * RayLength E tid,
            y4 (PositionTranslatedWorld E tid) - y4 (LightPositionOrDirection E) * RayLength E tid,
            z4 (PositionTranslatedWorld E tid) - z4 (LightPositionOrDirection E) * RayLength E tid,
            w4 (PositionTranslatedWorld E tid))
           (TranslatedWorldToClip (View E))
   \<and> (\<forall>t. sampleUVZ E tid t =
         (x3 (startUVZ E tid)
            + (x3 (xyz_over_w (endClip E tid)) - x3 (xyz_over_w (startClip E tid)))
                * x4 (ScreenPositionScaleBias (View E)) * t,
          y3 (startUVZ E tid)
            + (y3 (xyz_over_w (endClip E tid)) - y3 (xyz_over_w (startClip E tid)))
                * y4 (ScreenPositionScaleBias (View E)) * t,
          z3 (startUVZ E tid)
            + (z3 (xyz_over_w (endClip E tid)) - z3 (xyz_over_w (startClip E tid))) * t))
   \<and> RWShadowFactors (Main_CS E gid tid gtid S) (xy3 tid) =
       (if NdotL E tid \<le> 0
           \<or> (\<exists>k<NumSteps. Hit E tid (sampleTime_at E tid k)
                 \<and> all_inside (xy3 (sampleUVZ E tid (sampleTime_at E tid k))))
        then (0, SceneDepth E tid) else (1, SceneDepth E tid))
   \<and> Main_CS (E\<lparr>LightPositionOrDirection := (a, b, c, w)\<rparr>) gid tid gtid S
       = Main_CS (E\<lparr>LightPositionOrDirection := (a, b, c, w')\<rparr>) gid tid gtid S
   \<and> (GetLightType P \<noteq> LightType_Directional \<longrightarrow>
        host_LightPositionOrDirection P =
          (x3 (GetPosition P), y3 (GetPosition P), z3 (GetPosition P), 1)
        \<and> LightDirection (E\<lparr>LightPositionOrDirection := host_LightPositionOrDirection P\<rparr>) =
          (- x3 (GetPosition P), - y3 (GetPosition P), - z3 (GetPosition P))
        \<and> endClip (E\<lparr>LightPositionOrDirection := host_LightPositionOrDirection P\<rparr>) tid =
            mul (x4 (PositionTranslatedWorld E tid) - x3 (GetPosition P) * RayLength E tid,
                 y4 (PositionTranslatedWorld E tid) - y3 (GetPosition P) * RayLength E tid,
                 z4 (PositionTranslatedWorld E tid) - z3 (GetPosition P) * RayLength E tid,
                 w4 (PositionTranslatedWorld E tid))
                (TranslatedWorldToClip (View E)))
   \<and> (\<forall>passes'. dispatch_shadow V Sh passes = Running passes' \<longrightarrow>
        PassLightPositionOrDirection (last passes') = host_LightPositionOrDirection (Proxy Sh))"
proof -
  have ld: "LightDirection E =
     (- x4 (LightPositionOrDirection E), - y4 (LightPositionOrDirection E),
      - z4 (LightPositionOrDirection E))"
    by (simp add: LightDirection_def)
  have final: "RWShadowFactors (Main_CS E gid tid gtid S) (xy3 tid) =
       (if NdotL E tid \<le> 0
           \<or> (\<exists>k<NumSteps. Hit E tid (sampleTime_at E tid k)
                 \<and> all_inside (xy3 (sampleUVZ E tid (sampleTime_at E tid k))))
        then (0, SceneDepth E tid) else (1, SceneDepth E tid))"
    by (simp add: Main_CS_RW hit_on_screen_def)
  have inv: "Main_CS (E\<lparr>LightPositionOrDirection := (a, b, c, w)\<rparr>) gid tid gtid S
       = Main_CS (E\<lparr>LightPositionOrDirection := (a, b, c, w')\<rparr>) gid tid gtid S"
    by (rule Main_CS_cong) (simp_all add: LightDirection_def)
  have host: "GetLightType P \<noteq> LightType_Directional \<longrightarrow>
        host_LightPositionOrDirection P =
          (x3 (GetPosition P), y3 (GetPosition P), z3 (GetPosition P), 1)
        \<and> LightDirection (E\<lparr>LightPositionOrDirection := host_LightPositionOrDirection P\<rparr>) =
          (- x3 (GetPosition P), - y3 (GetPosition P), - z3 (GetPosition P))
        \<and> endClip (E\<lparr>LightPositionOrDirection := host_LightPositionOrDirection P\<rparr>) tid =
            mul (x4 (PositionTranslatedWorld E tid) - x3 (GetPosition P) * RayLength E tid,
                 y4 (PositionTranslatedWorld E tid) - y3 (GetPosition P) * RayLength E tid,
                 z4 (PositionTranslatedWorld E tid) - z3 (GetPosition P) * RayLength E tid,
                 w4 (PositionTranslatedWorld E tid))
                (TranslatedWorldToClip (View E))"
  proof
    assume nd: "GetLightType P \<noteq> LightType_Directional"
    then have h: "host_LightPositionOrDirection P =
          (x3 (GetPosition P), y3 (GetPosition P), z3 (GetPosition P), 1)"
      by (simp add: host_LightPositionOrDirection_def Let_def)
    show "host_LightPositionOrDirection P =
          (x3 (GetPosition P), y3 (GetPosition P), z3 (GetPosition P), 1)
        \<and> LightDirection (E\<lparr>LightPositionOrDirection := host_LightPositionOrDirection P\<rparr>) =
          (- x3 (GetPosition P), - y3 (GetPosition P), - z3 (GetPosition P))
        \<and> endClip (E\<lparr>LightPositionOrDirection := host_LightPositionOrDirection P\<rparr>) tid =
            mul (x4 (PositionTranslatedWorld E tid) - x3 (GetPosition P) * RayLength E tid,
                 y4 (PositionTranslatedWorld E tid) - y3 (GetPosition P) * RayLength E tid,
                 z4 (PositionTranslatedWorld E tid) - z3 (GetPosition P) * RayLength E tid,
                 w4 (PositionTranslatedWorld E tid))
                (TranslatedWorldToClip (View E))"
      unfolding endClip_light light_update_locals h
      by (simp add: LightDirection_def)
  qed
  have pass: "\<forall>passes'. dispatch_shadow V Sh passes = Running passes' \<longrightarrow>
        PassLightPositionOrDirection (last passes') = host_LightPositionOrDirection (Proxy Sh)"
    by (auto simp: dispatch_shadow_def Let_def split: if_splits)
  have path: "\<forall>t. sampleUVZ E tid t =
         (x3 (startUVZ E tid)
            + (x3 (xyz_over_w (endClip E tid)) - x3 (xyz_over_w (startClip E tid)))
                * x4 (ScreenPositionScaleBias (View E)) * t,
          y3 (startUVZ E tid)
            + (y3 (xyz_over_w (endClip E tid)) - y3 (xyz_over_w (startClip E tid)))
                * y4 (ScreenPositionScaleBias (View E)) * t,
          z3 (startUVZ E tid)
            + (z3 (xyz_over_w (endClip E tid)) - z3 (xyz_over_w (startClip E tid))) * t)"
    using sampleUVZ_ray[of E tid] by blast
  show ?thesis
    by (intro conjI ld dirClip_light endClip_light path final inv host pass)
qed

text \<open>
  An instance: for a point light at (300, 400, 500) and the shading point
  (-45/512, 11/512, 1) of the thread (233, 250), with a ray length of 1, the ray ends at the
  image of the shading point minus (300, 400, 500).
\<close>

theorem C10_light_direction_witness:
  "GetLightType point_light \<noteq> LightType_Directional
   \<and> host_LightPositionOrDirection point_light = (300, 400, 500, 1)
   \<and> LightDirection (wall_scene 1\<lparr>LightPositionOrDirection := host_LightPositionOrDirection point_light\<rparr>)
       = (- 300, - 400, - 500)
   \<and> PositionTranslatedWorld (wall_scene 1) (233, 250, 0) = (- 45 / 512, 11 / 512, 1, 1)
   \<and> endClip (wall_scene 1\<lparr>LightPositionOrDirection := host_LightPositionOrDirection point_light\<rparr>)
        (233, 250, 0) = (- 45 / 512 - 300, 11 / 512 - 400, 1, 1 - 500)
   \<and> Main_CS (wall_scene 1\<lparr>LightPositionOrDirection := (300, 400, 500, 1)\<rparr>) (29, 31, 0) (233, 250, 0) (1, 2, 0) cleared
       = Main_CS (wall_scene 1\<lparr>LightPositionOrDirection := (300, 400, 500, 0)\<rparr>) (29, 31, 0) (233, 250, 0) (1, 2, 0) cleared"
proof -
  note T = C10_light_direction[where E = "wall_scene 1" and a = 300 and b = 400 and c = 500
          and w = 1 and w' = 0 and gid = "(29, 31, 0)" and tid = "(233, 250, 0)"
          and gtid = "(1, 2, 0)" and S = cleared and P = point_light
          and V = view_20x9 and Sh = point_shadow and passes = "[]"]
  have nd: "GetLightType point_light \<noteq> LightType_Directional"
    by (simp add: point_light_def)
  have host: "host_LightPositionOrDirection point_light =
          (x3 (GetPosition point_light), y3 (GetPosition point_light), z3 (GetPosition point_light), 1)
        \<and> LightDirection (wall_scene 1\<lparr>LightPositionOrDirection := host_LightPositionOrDirection point_light\<rparr>) =
          (- x3 (GetPosition point_light), - y3 (GetPosition point_light), - z3 (GetPosition point_light))
        \<and> endClip (wall_scene 1\<lparr>LightPositionOrDirection := host_LightPositionOrDirection point_light\<rparr>) (233, 250, 0) =
            mul (x4 (PositionTranslatedWorld (wall_scene 1) (233, 250, 0))
                   - x3 (GetPosition point_light) * RayLength (wall_scene 1) (233, 250, 0),
                 y4 (PositionTranslatedWorld (wall_scene 1) (233, 250, 0))
                   - y3 (GetPosition point_light) * RayLength (wall_scene 1) (233, 250, 0),
                 z4 (PositionTranslatedWorld (wall_scene 1) (233, 250, 0))
                   - z3 (GetPosition point_light) * RayLength (wall_scene 1) (233, 250, 0),
                 w4 (PositionTranslatedWorld (wall_scene 1) (233, 250, 0)))
                (TranslatedWorldToClip (View (wall_scene 1)))"
    using T nd by blast
  have pos: "GetPosition point_light = (300, 400, 500)"
    by (simp add: point_light_def)
  have h: "host_LightPositionOrDirection point_light = (300, 400, 500, 1)"
    using host by (simp add: pos)
  have ld: "LightDirection (wall_scene 1\<lparr>LightPositionOrDirection := host_LightPositionOrDirection point_light\<rparr>)
       = (- 300, - 400, - 500)"
  proof -
    have "LightDirection (wall_scene 1\<lparr>LightPositionOrDirection := host_LightPositionOrDirection point_light\<rparr>) =
          (- x3 (GetPosition point_light), - y3 (GetPosition point_light), - z3 (GetPosition point_light))"
      using host by blast
    then show ?thesis by (simp add: pos)
  qed
  have ec0: "endClip (wall_scene 1\<lparr>LightPositionOrDirection := host_LightPositionOrDirection point_light\<rparr>) (233, 250, 0) =
            mul (x4 (PositionTranslatedWorld (wall_scene 1) (233, 250, 0))
                   - x3 (GetPosition point_light) * RayLength (wall_scene 1) (233, 250, 0),
                 y4 (PositionTranslatedWorld (wall_scene 1) (233, 250, 0))
                   - y3 (GetPosition point_light) * RayLength (wall_scene 1) (233, 250, 0),
                 z4 (PositionTranslatedWorld (wall_scene 1) (233, 250, 0))
                   - z3 (GetPosition point_light) * RayLength (wall_scene 1) (233, 250, 0),
                 w4 (PositionTranslatedWorld (wall_scene 1) (233, 250, 0)))
                (TranslatedWorldToClip (View (wall_scene 1)))"
    using host by blast
  have ec: "endClip (wall_scene 1\<lparr>LightPositionOrDirection := host_LightPositionOrDirection point_light\<rparr>)
        (233, 250, 0) = (- 45 / 512 - 300, 11 / 512 - 400, 1, 1 - 500)"
    unfolding ec0
    by (simp add: pos wall_PositionTranslatedWorld wall_RayLength wall_TranslatedWorldToClip)
  have inv: "Main_CS (wall_scene 1\<lparr>LightPositionOrDirection := (300, 400, 500, 1)\<rparr>) (29, 31, 0) (233, 250, 0) (1, 2, 0) cleared
       = Main_CS (wall_scene 1\<lparr>LightPositionOrDirection := (300, 400, 500, 0)\<rparr>) (29, 31, 0) (233, 250, 0) (1, 2, 0) cleared"
    using T by blast
  show ?thesis
    by (intro conjI nd h ld wall_PositionTranslatedWorld ec inv)
qed

end
